theory Spec2Isabelle
  imports Complex_Main
begin

section \<open>Library types: timestamps, rounding, floating-point arithmetic\<close>

text \<open>
  Python floats are modelled as real numbers: every arithmetic operation is exact.  A
  \<^verbatim>\<open>datetime\<close> (always UTC here) is the number of microseconds since
  0001-01-01T00:00:00; a \<^verbatim>\<open>timedelta\<close> is a number of microseconds.  The library
  keeps a \<^verbatim>\<open>datetime\<close> within the years 1 to 9999 and a \<^verbatim>\<open>timedelta\<close> within
  999999999 days: the two operations that can leave these ranges, building a
  \<^verbatim>\<open>timedelta\<close> and adding one to a \<^verbatim>\<open>datetime\<close>, raise \<^verbatim>\<open>OverflowError\<close>
  (\<open>py_timedelta\<close> and \<open>dt_add\<close> below).
\<close>

type_synonym datetime = int
type_synonym timedelta = int

definition timedelta :: "int \<Rightarrow> timedelta" where
  \<comment> \<open>\<^verbatim>\<open>timedelta(seconds=n)\<close> for an integer number of seconds\<close>
  "timedelta seconds = seconds * 1000000"

definition total_seconds :: "timedelta \<Rightarrow> real" where
  "total_seconds d = real_of_int d / 1000000"

subsection \<open>The proleptic Gregorian calendar of \<^verbatim>\<open>datetime\<close>\<close>

definition DAYS_IN_MONTH :: "int list" where
  "DAYS_IN_MONTH = [-1, 31, 28, 31, 30, 31, 30, 31, 31, 30, 31, 30, 31]"

definition DAYS_BEFORE_MONTH :: "int list" where
  "DAYS_BEFORE_MONTH = [-1, 0, 31, 59, 90, 120, 151, 181, 212, 243, 273, 304, 334]"

definition is_leap :: "int \<Rightarrow> bool" where
  "is_leap year = (year mod 4 = 0 \<and> (year mod 100 \<noteq> 0 \<or> year mod 400 = 0))"

definition days_before_year :: "int \<Rightarrow> int" where
  "days_before_year year =
     (let y = year - 1 in y * 365 + y div 4 - y div 100 + y div 400)"

definition days_before_month :: "int \<Rightarrow> int \<Rightarrow> int" where
  "days_before_month year month =
     DAYS_BEFORE_MONTH ! nat month + (if month > 2 \<and> is_leap year then 1 else 0)"

definition ymd2ord :: "int \<Rightarrow> int \<Rightarrow> int \<Rightarrow> int" where
  "ymd2ord year month day = days_before_year year + days_before_month year month + day"

definition ord2ymd :: "int \<Rightarrow> int \<times> int \<times> int" where
  "ord2ymd ordinal =
     (let n = ordinal - 1;
          n400 = n div 146097; n = n mod 146097;
          year = n400 * 400 + 1;
          n100 = n div 36524; n = n mod 36524;
          n4 = n div 1461; n = n mod 1461;
          n1 = n div 365; n = n mod 365;
          year = year + n100 * 100 + n4 * 4 + n1
      in if n1 = 4 \<or> n100 = 4 then (year - 1, 12, 31)
         else
           let leapyear = (n1 = 3 \<and> (n4 \<noteq> 24 \<or> n100 = 3));
               month = (n + 50) div 32;
               preceding = DAYS_BEFORE_MONTH ! nat month
                             + (if month > 2 \<and> leapyear then 1 else 0)
           in if preceding > n
              then let month = month - 1;
                       preceding = preceding - (DAYS_IN_MONTH ! nat month
                                     + (if month = 2 \<and> leapyear then 1 else 0))
                   in (year, month, n - preceding + 1)
              else (year, month, n - preceding + 1))"

definition utc :: "int \<Rightarrow> int \<Rightarrow> int \<Rightarrow> int \<Rightarrow> int \<Rightarrow> int \<Rightarrow> datetime" where
  \<comment> \<open>\<^verbatim>\<open>datetime(year, month, day, hour, minute, second, tzinfo=timezone.utc)\<close>\<close>
  "utc year month day hour minute second =
     (((ymd2ord year month day - 1) * 86400 + hour * 3600 + minute * 60 + second) * 1000000)"

definition dt_date :: "datetime \<Rightarrow> int \<times> int \<times> int" where
  "dt_date dt = ord2ymd (dt div 1000000 div 86400 + 1)"

definition dt_year :: "datetime \<Rightarrow> int" where
  "dt_year dt = fst (dt_date dt)"

definition dt_month :: "datetime \<Rightarrow> int" where
  "dt_month dt = fst (snd (dt_date dt))"

definition dt_day :: "datetime \<Rightarrow> int" where
  "dt_day dt = snd (snd (dt_date dt))"

definition dt_hour :: "datetime \<Rightarrow> int" where
  "dt_hour dt = dt div 1000000 mod 86400 div 3600"

definition dt_minute :: "datetime \<Rightarrow> int" where
  "dt_minute dt = dt div 1000000 mod 3600 div 60"

definition dt_second :: "datetime \<Rightarrow> int" where
  "dt_second dt = dt div 1000000 mod 60"

definition digit :: "int \<Rightarrow> char" where
  "digit d = ''0123456789'' ! nat (d mod 10)"

definition pad2 :: "int \<Rightarrow> string" where
  "pad2 n = [digit (n div 10), digit n]"

definition pad4 :: "int \<Rightarrow> string" where
  "pad4 n = [digit (n div 1000), digit (n div 100), digit (n div 10), digit n]"

definition strftime :: "datetime \<Rightarrow> string" where
  \<comment> \<open>\<^verbatim>\<open>dt.strftime('%Y-%m-%dT%H:%M:%SZ')\<close>: second precision, fractions dropped\<close>
  "strftime dt =
     pad4 (dt_year dt) @ ''-'' @ pad2 (dt_month dt) @ ''-'' @ pad2 (dt_day dt) @ ''T''
       @ pad2 (dt_hour dt) @ '':'' @ pad2 (dt_minute dt) @ '':'' @ pad2 (dt_second dt) @ ''Z''"

subsection \<open>The built-in \<^verbatim>\<open>round\<close>\<close>

text \<open>
  Python 3 rounds a float to \<open>ndigits\<close> decimals by rounding the exact value to the
  nearest multiple of \<open>10^-ndigits\<close>, a tie going to the even multiple.
\<close>

definition round_half_even :: "real \<Rightarrow> int" where
  "round_half_even x =
     (let f = \<lfloor>x\<rfloor>; d = x - of_int f
      in if d < 1/2 then f else if d > 1/2 then f + 1 else if even f then f else f + 1)"

definition py_round :: "real \<Rightarrow> nat \<Rightarrow> real" where
  "py_round x ndigits = of_int (round_half_even (x * 10 ^ ndigits)) / 10 ^ ndigits"

text \<open>The rounding rule of the specification text: a tie goes away from zero.\<close>

definition round_half_away :: "real \<Rightarrow> nat \<Rightarrow> real" where
  "round_half_away x ndigits =
     sgn x * of_int \<lfloor>\<bar>x\<bar> * 10 ^ ndigits + 1/2\<rfloor> / 10 ^ ndigits"

subsection \<open>Python list indexing\<close>

datatype error = IndexError | TypeError | AttributeError | OverflowError

definition py_get :: "'a list \<Rightarrow> int \<Rightarrow> error + 'a" where
  \<comment> \<open>\<^verbatim>\<open>xs[k]\<close>: an index below zero counts back from the end\<close>
  "py_get xs k =
     (if 0 \<le> k \<and> k < int (length xs) then Inr (xs ! nat k)
      else if k < 0 \<and> - int (length xs) \<le> k then Inr (xs ! nat (int (length xs) + k))
      else Inl IndexError)"

section \<open>The window segmenter\<close>

text \<open>
  A position is the dictionary built by \<^verbatim>\<open>_calculate_positions\<close>; a window point is the
  dictionary with the same keys whose time is a string.  The key \<^verbatim>\<open>range\<close> is the field
  \<open>range_km\<close>.
\<close>

record 't sample =
  time :: 't
  elevation :: real
  azimuth :: real
  range_km :: real
  rangeRate :: real
  altitude :: real

type_synonym position = "datetime sample"
type_synonym point = "string sample"

record window =
  w_start :: string
  w_end :: string
  maxElevation :: real
  maxElevationTime :: string
  duration :: real
  points :: "point list"

record seg_state =
  windows :: "window list"
  in_window :: bool
  window_start :: "datetime option"
  window_positions :: "point list"
  window_max_elevation :: real
  window_max_elevation_time :: "datetime option"

definition init_state :: seg_state where
  "init_state = \<lparr>windows = [], in_window = False, window_start = None,
     window_positions = [], window_max_elevation = -90, window_max_elevation_time = None\<rparr>"

definition mk_point :: "position \<Rightarrow> point" where
  "mk_point pos = \<lparr>time = strftime (time pos),
     elevation = py_round (elevation pos) 2,
     azimuth = py_round (azimuth pos) 2,
     range_km = py_round (range_km pos) 2,
     rangeRate = py_round (rangeRate pos) 3,
     altitude = py_round (altitude pos) 2\<rparr>"

definition close_window :: "position list \<Rightarrow> int \<Rightarrow> seg_state \<Rightarrow> error + window" where
  \<comment> \<open>the dictionary appended to \<^verbatim>\<open>windows\<close>, with \<^verbatim>\<open>window_end = positions[k]['time']\<close>\<close>
  "close_window positions k st =
     (case py_get positions k of
        Inl e \<Rightarrow> Inl e
      | Inr p \<Rightarrow>
          (case window_start st of
             None \<Rightarrow> Inl TypeError
           | Some ws \<Rightarrow>
               (case window_max_elevation_time st of
                  None \<Rightarrow> Inl AttributeError
                | Some mt \<Rightarrow>
                    Inr \<lparr>w_start = strftime ws,
                         w_end = strftime (time p),
                         maxElevation = py_round (window_max_elevation st) 2,
                         maxElevationTime = strftime mt,
                         duration = py_round (total_seconds (time p - ws)) 0,
                         points = window_positions st\<rparr>)))"

definition seg_step :: "position list \<Rightarrow> real \<Rightarrow> seg_state \<Rightarrow> nat \<Rightarrow> position \<Rightarrow> error + seg_state" where
  \<comment> \<open>the body of the loop \<^verbatim>\<open>for i, pos in enumerate(positions)\<close>\<close>
  "seg_step positions min_elevation st i pos =
     (if elevation pos \<ge> min_elevation then
        let st1 = (if \<not> in_window st
                   then st\<lparr>in_window := True, window_start := Some (time pos),
                           window_positions := [],
                           window_max_elevation := elevation pos,
                           window_max_elevation_time := Some (time pos)\<rparr>
                   else st);
            st2 = (if elevation pos > window_max_elevation st1
                   then st1\<lparr>window_max_elevation := elevation pos,
                            window_max_elevation_time := Some (time pos)\<rparr>
                   else st1)
        in Inr (st2\<lparr>window_positions := window_positions st2 @ [mk_point pos]\<rparr>)
      else if in_window st then
        (case close_window positions (int i - 1) st of
           Inl e \<Rightarrow> Inl e
         | Inr w \<Rightarrow> Inr (st\<lparr>windows := windows st @ [w], in_window := False\<rparr>))
      else Inr st)"

fun seg_loop :: "position list \<Rightarrow> real \<Rightarrow> nat \<Rightarrow> position list \<Rightarrow> seg_state \<Rightarrow> error + seg_state" where
  "seg_loop positions min_elevation i [] st = Inr st"
| "seg_loop positions min_elevation i (pos # rest) st =
     (case seg_step positions min_elevation st i pos of
        Inl e \<Rightarrow> Inl e
      | Inr st' \<Rightarrow> seg_loop positions min_elevation (Suc i) rest st')"

definition seg_finish :: "position list \<Rightarrow> seg_state \<Rightarrow> error + window list" where
  \<comment> \<open>the window that extends to the end of the samples\<close>
  "seg_finish positions st =
     (if in_window st \<and> window_positions st \<noteq> [] then
        (case close_window positions (-1) st of
           Inl e \<Rightarrow> Inl e
         | Inr w \<Rightarrow> Inr (windows st @ [w]))
      else Inr (windows st))"

definition find_visibility_windows ::
  "position list \<Rightarrow> datetime list \<Rightarrow> real \<Rightarrow> error + window list" where
  "find_visibility_windows positions times' min_elevation =
     (case seg_loop positions min_elevation 0 positions init_state of
        Inl e \<Rightarrow> Inl e
      | Inr st \<Rightarrow> seg_finish positions st)"

section \<open>The time grid\<close>

definition MAX_DATETIME :: datetime where
  \<comment> \<open>\<^verbatim>\<open>datetime.max\<close>, 9999-12-31T23:59:59.999999\<close>
  "MAX_DATETIME = 3652059 * 86400000000 - 1"

definition py_timedelta :: "int \<Rightarrow> error + timedelta" where
  \<comment> \<open>\<^verbatim>\<open>timedelta(seconds=n)\<close>: the days must have magnitude at most 999999999\<close>
  "py_timedelta seconds =
     (if - 999999999 \<le> seconds div 86400 \<and> seconds div 86400 \<le> 999999999
      then Inr (timedelta seconds) else Inl OverflowError)"

definition dt_add :: "datetime \<Rightarrow> timedelta \<Rightarrow> error + datetime" where
  \<comment> \<open>\<^verbatim>\<open>dt + delta\<close>: the sum must be a date of the years 1 to 9999\<close>
  "dt_add dt delta =
     (if 0 \<le> dt + delta \<and> dt + delta \<le> MAX_DATETIME then Inr (dt + delta)
      else Inl OverflowError)"

text \<open>
  \<^verbatim>\<open>_generate_times\<close> is a \<^verbatim>\<open>while\<close> loop that need not end (a step of zero): not
  returning is the value \<open>None\<close>.  Each round appends the current time and then adds the
  step to it, which raises \<^verbatim>\<open>OverflowError\<close> when the sum is no \<^verbatim>\<open>datetime\<close>.  The
  step is the integer number of seconds of the test-case schema.
\<close>

partial_function (option) generate_times_loop ::
  "datetime \<Rightarrow> datetime \<Rightarrow> int \<Rightarrow> datetime list \<Rightarrow> (error + datetime list) option" where
  "generate_times_loop current end' step_seconds times' =
     (if current \<le> end'
      then (case py_timedelta step_seconds of
              Inl e \<Rightarrow> Some (Inl e)
            | Inr delta \<Rightarrow>
                (case dt_add current delta of
                   Inl e \<Rightarrow> Some (Inl e)
                 | Inr next_time \<Rightarrow>
                     generate_times_loop next_time end' step_seconds (times' @ [current])))
      else Some (Inr times'))"

definition generate_times ::
  "datetime \<Rightarrow> datetime \<Rightarrow> int \<Rightarrow> (error + datetime list) option" where
  "generate_times start end' step_seconds = generate_times_loop start end' step_seconds []"

section \<open>The manual-transform variant (python-sgp4)\<close>

type_synonym vec3 = "real \<times> real \<times> real"

definition EARTH_RADIUS_KM :: real where
  "EARTH_RADIUS_KM = 6378.137"

definition EARTH_FLATTENING :: real where
  "EARTH_FLATTENING = 1.0 / 298.257223563"

definition radians :: "real \<Rightarrow> real" where
  "radians x = x * pi / 180"

definition degrees :: "real \<Rightarrow> real" where
  "degrees x = x * 180 / pi"

definition atan2 :: "real \<Rightarrow> real \<Rightarrow> real" where
  \<comment> \<open>\<^verbatim>\<open>math.atan2(y, x)\<close>, without signed zeros\<close>
  "atan2 y x =
     (if x > 0 then arctan (y / x)
      else if x < 0 then (if y \<ge> 0 then arctan (y / x) + pi else arctan (y / x) - pi)
      else if y > 0 then pi / 2
      else if y < 0 then - pi / 2
      else 0)"

definition py_fmod :: "real \<Rightarrow> real \<Rightarrow> real" where
  \<comment> \<open>the float operator \<^verbatim>\<open>%\<close>: the result has the sign of the divisor\<close>
  "py_fmod x m = x - m * of_int \<lfloor>x / m\<rfloor>"

definition norm3 :: "vec3 \<Rightarrow> real" where
  \<comment> \<open>\<^verbatim>\<open>np.linalg.norm\<close> of a vector of three components\<close>
  "norm3 v = (case v of (x, y, z) \<Rightarrow> sqrt (x * x + y * y + z * z))"

definition vsub :: "vec3 \<Rightarrow> vec3 \<Rightarrow> vec3" where
  "vsub a b = (case a of (ax, ay, az) \<Rightarrow> case b of (bx, by, bz) \<Rightarrow> (ax - bx, ay - by, az - bz))"

definition geodetic_to_ecef :: "real \<Rightarrow> real \<Rightarrow> real \<Rightarrow> vec3" where
  "geodetic_to_ecef lat_deg lon_deg alt_km =
     (let lat = radians lat_deg;
          lon = radians lon_deg;
          e_squared = 2 * EARTH_FLATTENING - EARTH_FLATTENING ^ 2;
          N = EARTH_RADIUS_KM / sqrt (1 - e_squared * sin lat ^ 2);
          x = (N + alt_km) * cos lat * cos lon;
          y = (N + alt_km) * cos lat * sin lon;
          z = (N * (1 - e_squared) + alt_km) * sin lat
      in (x, y, z))"

definition gmst :: "real \<Rightarrow> real \<Rightarrow> real" where
  "gmst jd fr =
     (let t = (jd - 2451545.0 + fr) / 36525.0;
          gmst_0h = 24110.54841 + 8640184.812866 * t + 0.093104 * t * t - 6.2 / 10 ^ 6 * t * t * t;
          gmst_0h = gmst_0h + 86400.0 * 1.00273790935 * fr;
          gmst_rad = py_fmod gmst_0h 86400.0 * (2.0 * pi / 86400.0)
      in gmst_rad)"

definition teme_to_ecef :: "vec3 \<Rightarrow> real \<Rightarrow> real \<Rightarrow> vec3" where
  "teme_to_ecef teme_pos jd fr =
     (case teme_pos of (p0, p1, p2) \<Rightarrow>
        let g = gmst jd fr;
            cos_gmst = cos g;
            sin_gmst = sin g;
            x_ecef = cos_gmst * p0 + sin_gmst * p1;
            y_ecef = - sin_gmst * p0 + cos_gmst * p1;
            z_ecef = p2
        in (x_ecef, y_ecef, z_ecef))"

definition ecef_to_azel :: "vec3 \<Rightarrow> real \<Rightarrow> real \<Rightarrow> real \<times> real" where
  "ecef_to_azel range_vec observer_lat_deg observer_lon_deg =
     (case range_vec of (r0, r1, r2) \<Rightarrow>
        let lat = radians observer_lat_deg;
            lon = radians observer_lon_deg;
            sin_lat = sin lat; cos_lat = cos lat;
            sin_lon = sin lon; cos_lon = cos lon;
            south = sin_lat * cos_lon * r0 + sin_lat * sin_lon * r1 - cos_lat * r2;
            east = - sin_lon * r0 + cos_lon * r1;
            zenith = cos_lat * cos_lon * r0 + cos_lat * sin_lon * r1 + sin_lat * r2;
            azimuth_deg = degrees (atan2 east (- south));
            azimuth_deg = (if azimuth_deg < 0 then azimuth_deg + 360.0 else azimuth_deg);
            range_horizontal = sqrt (south ^ 2 + east ^ 2);
            elevation_deg = degrees (atan2 zenith range_horizontal)
        in (azimuth_deg, elevation_deg))"

text \<open>
  The propagator library is a parameter: \<open>jday\<close> turns the calendar fields of a time into
  a Julian day and a day fraction, and \<open>satellite\<close> is \<^verbatim>\<open>satellite.sgp4\<close>, returning an
  error code, a position and a velocity.
\<close>

type_synonym jday_fn = "int \<Rightarrow> int \<Rightarrow> int \<Rightarrow> int \<Rightarrow> int \<Rightarrow> int \<Rightarrow> real \<times> real"
type_synonym propagator = "real \<Rightarrow> real \<Rightarrow> int \<times> vec3 \<times> vec3"

definition jday_of :: "jday_fn \<Rightarrow> datetime \<Rightarrow> real \<times> real" where
  \<comment> \<open>\<^verbatim>\<open>jday(dt.year, dt.month, dt.day, dt.hour, dt.minute, dt.second)\<close>\<close>
  "jday_of jday dt =
     jday (dt_year dt) (dt_month dt) (dt_day dt) (dt_hour dt) (dt_minute dt) (dt_second dt)"

definition error_code_at :: "jday_fn \<Rightarrow> propagator \<Rightarrow> datetime \<Rightarrow> int" where
  "error_code_at jday satellite dt = (case jday_of jday dt of (jd, fr) \<Rightarrow> fst (satellite jd fr))"


definition position_at ::
  "jday_fn \<Rightarrow> propagator \<Rightarrow> vec3 \<Rightarrow> datetime list \<Rightarrow> real \<Rightarrow> real \<Rightarrow> nat \<Rightarrow> datetime
     \<Rightarrow> position option" where
  \<comment> \<open>the body of the loop of \<^verbatim>\<open>_calculate_positions\<close>; \<open>None\<close> is \<^verbatim>\<open>continue\<close>\<close>
  "position_at jday satellite observer_ecef times' observer_lat observer_lon i dt =
     (case jday_of jday dt of (jd, fr) \<Rightarrow>
      case satellite jd fr of (error_code, sat_pos_teme, sat_vel_teme) \<Rightarrow>
        if error_code \<noteq> 0 then None
        else
          let sat_pos_ecef = teme_to_ecef sat_pos_teme jd fr;
              range_vec = vsub sat_pos_ecef observer_ecef;
              range_km = norm3 range_vec;
              azel = ecef_to_azel range_vec observer_lat observer_lon;
              range_rate =
                (if int i < int (length times') - 1 then
                   let dt_next = times' ! (i + 1) in
                   case jday_of jday dt_next of (jd_next, fr_next) \<Rightarrow>
                   case satellite jd_next fr_next of
                     (error_code_next, sat_pos_next_teme, sat_vel_next_teme) \<Rightarrow>
                       if error_code_next = 0 then
                         let sat_pos_next_ecef = teme_to_ecef sat_pos_next_teme jd_next fr_next;
                             range_next = norm3 (vsub sat_pos_next_ecef observer_ecef);
                             time_diff = total_seconds (times' ! (i + 1) - dt)
                         in if time_diff > 0 then (range_next - range_km) / time_diff else 0.0
                       else 0.0
                 else 0.0);
              sat_altitude = norm3 sat_pos_ecef - EARTH_RADIUS_KM
          in Some \<lparr>time = dt, elevation = snd azel, azimuth = fst azel, range_km = range_km,
                    rangeRate = range_rate, altitude = sat_altitude\<rparr>)"

fun calc_loop ::
  "jday_fn \<Rightarrow> propagator \<Rightarrow> vec3 \<Rightarrow> datetime list \<Rightarrow> real \<Rightarrow> real \<Rightarrow> nat \<Rightarrow> datetime list
     \<Rightarrow> position list" where
  "calc_loop jday satellite observer_ecef times' observer_lat observer_lon i [] = []"
| "calc_loop jday satellite observer_ecef times' observer_lat observer_lon i (dt # rest) =
     (case position_at jday satellite observer_ecef times' observer_lat observer_lon i dt of
        None \<Rightarrow>
          calc_loop jday satellite observer_ecef times' observer_lat observer_lon (Suc i) rest
      | Some pos \<Rightarrow>
          pos # calc_loop jday satellite observer_ecef times' observer_lat observer_lon (Suc i) rest)"

definition calculate_positions ::
  "jday_fn \<Rightarrow> propagator \<Rightarrow> vec3 \<Rightarrow> datetime list \<Rightarrow> real \<Rightarrow> real \<Rightarrow> position list" where
  "calculate_positions jday satellite observer_ecef times' observer_lat observer_lon =
     calc_loop jday satellite observer_ecef times' observer_lat observer_lon 0 times'"

text \<open>
  \<^verbatim>\<open>calculate\<close>: the test case after parsing (the satellite built from the TLE, the two
  ends of the time window as timestamps).  \<open>None\<close>: the time grid never ends;
  an error of the time grid is the error of the calculation.
\<close>

record test_case =
  name :: string
  latitude :: real
  longitude :: real
  altitude_m :: real
  tw_start :: datetime
  tw_end :: datetime
  tw_step :: int
  minElevation :: real

record result =
  testCase :: string
  implementation :: string
  version :: string
  visibilityWindows :: "window list"

definition calculate :: "jday_fn \<Rightarrow> propagator \<Rightarrow> test_case \<Rightarrow> (error + result) option" where
  "calculate jday satellite tc =
     (case generate_times (tw_start tc) (tw_end tc) (tw_step tc) of
        None \<Rightarrow> None
      | Some (Inl e) \<Rightarrow> Some (Inl e)
      | Some (Inr times') \<Rightarrow>
          let observer_ecef = geodetic_to_ecef (latitude tc) (longitude tc) (altitude_m tc / 1000.0);
              positions = calculate_positions jday satellite observer_ecef times'
                            (latitude tc) (longitude tc)
          in (case find_visibility_windows positions times' (minElevation tc) of
                Inl e \<Rightarrow> Some (Inl e)
              | Inr visibility_windows \<Rightarrow>
                  Some (Inr \<lparr>testCase = name tc, implementation = ''python-sgp4'',
                             version = ''1.0.0'', visibilityWindows = visibility_windows\<rparr>)))"

section \<open>The library-delegated variant (python-skyfield)\<close>

text \<open>
  The library is a parameter.  A library time is a number of seconds, built by
  \<open>ts_utc\<close> from calendar fields (a seconds field of 60 runs into the next minute);
  \<open>topocentric t\<close> is \<^verbatim>\<open>(satellite - observer).at(t).altaz()\<close>, the altitude and azimuth in
  degrees and the distance in kilometres (the distance is also what
  \<^verbatim>\<open>.distance().km\<close> returns); \<open>geocentric t\<close> is \<^verbatim>\<open>satellite.at(t).distance().km\<close>.
  The window segmenter of this variant is the same text as \<open>find_visibility_windows\<close>.
\<close>

definition ts_utc :: "int \<Rightarrow> int \<Rightarrow> int \<Rightarrow> int \<Rightarrow> int \<Rightarrow> int \<Rightarrow> int" where
  "ts_utc year month day hour minute second =
     (ymd2ord year month day - 1) * 86400 + hour * 3600 + minute * 60 + second"

definition sky_position_at ::
  "(int \<Rightarrow> real \<times> real \<times> real) \<Rightarrow> (int \<Rightarrow> real) \<Rightarrow> datetime \<Rightarrow> position" where
  "sky_position_at topocentric geocentric dt =
     (let t = ts_utc (dt_year dt) (dt_month dt) (dt_day dt) (dt_hour dt) (dt_minute dt)
                (dt_second dt)
      in case topocentric t of (alt, az, distance) \<Rightarrow>
        let t_next = ts_utc (dt_year dt) (dt_month dt) (dt_day dt) (dt_hour dt) (dt_minute dt)
                       (dt_second dt + 1);
            distance_next = snd (snd (topocentric t_next));
            range_rate = distance_next - distance;
            sat_altitude = geocentric t - 6371.0
        in \<lparr>time = dt, elevation = alt, azimuth = az, range_km = distance,
             rangeRate = range_rate, altitude = sat_altitude\<rparr>)"

fun sky_calculate_positions ::
  "(int \<Rightarrow> real \<times> real \<times> real) \<Rightarrow> (int \<Rightarrow> real) \<Rightarrow> datetime list \<Rightarrow> position list" where
  "sky_calculate_positions topocentric geocentric [] = []"
| "sky_calculate_positions topocentric geocentric (dt # rest) =
     sky_position_at topocentric geocentric dt
       # sky_calculate_positions topocentric geocentric rest"

section \<open>Specification-level descriptions\<close>

text \<open>
  The samples at or above the threshold fall into maximal runs of neighbours;
  \<open>split_runs\<close> lists them, and \<open>window_of\<close> is the window a run stands for.
\<close>

definition peak_step :: "real \<times> datetime \<Rightarrow> position \<Rightarrow> real \<times> datetime" where
  "peak_step pk p = (if elevation p > fst pk then (elevation p, time p) else pk)"

definition peak :: "position list \<Rightarrow> real \<times> datetime" where
  "peak run = foldl peak_step (elevation (hd run), time (hd run)) run"

definition window_of :: "position list \<Rightarrow> window" where
  "window_of run =
     \<lparr>w_start = strftime (time (hd run)),
      w_end = strftime (time (last run)),
      maxElevation = py_round (fst (peak run)) 2,
      maxElevationTime = strftime (snd (peak run)),
      duration = py_round (total_seconds (time (last run) - time (hd run))) 0,
      points = map mk_point run\<rparr>"

fun split_runs :: "real \<Rightarrow> position list \<Rightarrow> position list \<Rightarrow> position list list" where
  "split_runs m cur [] = (if cur = [] then [] else [cur])"
| "split_runs m cur (p # ps) =
     (if elevation p \<ge> m then split_runs m (cur @ [p]) ps
      else (if cur = [] then [] else [cur]) @ split_runs m [] ps)"

definition state_ok :: "seg_state \<Rightarrow> position list \<Rightarrow> position list \<Rightarrow> bool" where
  \<comment> \<open>the loop invariant: \<open>cur\<close> is the run that is open after the samples \<open>seen\<close>\<close>
  "state_ok st seen cur \<longleftrightarrow>
     (in_window st \<longleftrightarrow> cur \<noteq> []) \<and>
     (cur \<noteq> [] \<longrightarrow>
        (\<exists>pre. seen = pre @ cur) \<and>
        window_start st = Some (time (hd cur)) \<and>
        window_positions st = map mk_point cur \<and>
        window_max_elevation st = fst (peak cur) \<and>
        window_max_elevation_time st = Some (snd (peak cur)))"

text \<open>The sidereal angle as the specification text writes it.\<close>

definition gmst_spec :: "real \<Rightarrow> real \<Rightarrow> real" where
  "gmst_spec jd fr =
     (let T = (jd - 2451545.0 + fr) / 36525
      in py_fmod (24110.54841 + 8640184.812866 * T + 0.093104 * T\<^sup>2 - 6.2 / 10 ^ 6 * T ^ 3
                    + 86400 * 1.0027379093 * fr) 86400
           * (2 * pi / 86400))"

section \<open>Concrete inputs\<close>

text \<open>
  The scenario of the specification: elevations 5, 12, 20, 15, 8, 3, 11, 9 at steps of 60
  seconds from 2024-01-01T00:00:00Z; the other fields of sample \<open>k\<close> are arbitrary.
\<close>

definition scenario_sample ::
  "(int \<Rightarrow> real) \<Rightarrow> (int \<Rightarrow> real) \<Rightarrow> (int \<Rightarrow> real) \<Rightarrow> (int \<Rightarrow> real) \<Rightarrow> int \<Rightarrow> real
     \<Rightarrow> position" where
  "scenario_sample az rg rr al k e =
     \<lparr>time = utc 2024 1 1 0 0 0 + timedelta (60 * k), elevation = e,
      azimuth = az k, range_km = rg k, rangeRate = rr k, altitude = al k\<rparr>"

definition scenario ::
  "(int \<Rightarrow> real) \<Rightarrow> (int \<Rightarrow> real) \<Rightarrow> (int \<Rightarrow> real) \<Rightarrow> (int \<Rightarrow> real) \<Rightarrow> position list" where
  "scenario az rg rr al =
     map (\<lambda>(k, e). scenario_sample az rg rr al k e)
       [(0, 5), (1, 12), (2, 20), (3, 15), (4, 8), (5, 3), (6, 11), (7, 9)]"

definition zero_scenario :: "position list" where
  "zero_scenario = scenario (\<lambda>k. 0) (\<lambda>k. 0) (\<lambda>k. 0) (\<lambda>k. 0)"

text \<open>
  One sample whose fields lie exactly halfway between two neighbouring roundings (all of
  them binary fractions, so a float holds them exactly), and the window it gives.
\<close>

definition tie_sample :: position where
  "tie_sample = \<lparr>time = utc 2024 1 1 0 0 0, elevation = 12.125, azimuth = 0.125,
     range_km = 1000.125, rangeRate = 0.0625, altitude = 400.125\<rparr>"

definition tie_point :: point where
  "tie_point = \<lparr>time = ''2024-01-01T00:00:00Z'', elevation = 12.12, azimuth = 0.12,
     range_km = 1000.12, rangeRate = 0.062, altitude = 400.12\<rparr>"

definition tie_window :: window where
  "tie_window =
     \<lparr>w_start = ''2024-01-01T00:00:00Z'', w_end = ''2024-01-01T00:00:00Z'',
      maxElevation = 12.12, maxElevationTime = ''2024-01-01T00:00:00Z'', duration = 0,
      points = [tie_point]\<rparr>"

text \<open>Rounding to the nearest multiple of \<open>10^-n\<close>, a tie going to the even one.\<close>

definition half_even_rounding :: "real \<Rightarrow> nat \<Rightarrow> real \<Rightarrow> bool" where
  "half_even_rounding x n y \<longleftrightarrow>
     (\<exists>k::int. y = of_int k / 10 ^ n \<and> \<bar>x * 10 ^ n - of_int k\<bar> \<le> 1/2
        \<and> (\<bar>x * 10 ^ n - of_int k\<bar> = 1/2 \<longrightarrow> even k))"

text \<open>
  A propagator that fails in minute 1 of every hour, a library whose distance grows by one
  kilometre per second within a minute, and a test case of three steps.
\<close>

definition minute_jday :: jday_fn where
  "minute_jday year month day hour minute second = (of_int minute, of_int second)"

definition flaky_satellite :: propagator where
  "flaky_satellite jd fr = (if jd = 1 then 1 else 0, (7000 + jd, 0, 0), (0, 0, 0))"

definition three_steps :: test_case where
  "three_steps = \<lparr>name = ''three'', latitude = 0, longitude = 0, altitude_m = 0,
     tw_start = utc 2024 1 1 0 0 0, tw_end = utc 2024 1 1 0 2 0, tw_step = 60,
     minElevation = 10\<rparr>"

definition ramp_topocentric :: "int \<Rightarrow> real \<times> real \<times> real" where
  "ramp_topocentric t = (45, 180, 1000 + of_int (t mod 60))"

definition flat_geocentric :: "int \<Rightarrow> real" where
  "flat_geocentric t = 7000"

text \<open>The library time of a timestamp in the library-delegated variant.\<close>

definition sky_time :: "datetime \<Rightarrow> int" where
  "sky_time dt =
     ts_utc (dt_year dt) (dt_month dt) (dt_day dt) (dt_hour dt) (dt_minute dt) (dt_second dt)"

section \<open>The segmenter lists the windows of the maximal runs\<close>

lemmas cal_defs = strftime_def utc_def ymd2ord_def days_before_year_def days_before_month_def
  DAYS_BEFORE_MONTH_def DAYS_IN_MONTH_def is_leap_def pad2_def pad4_def digit_def dt_year_def
  dt_month_def dt_day_def dt_hour_def dt_minute_def dt_second_def dt_date_def ord2ymd_def

lemma py_get_last: "xs \<noteq> [] \<Longrightarrow> py_get xs (-1) = Inr (last xs)"
  by (cases xs rule: rev_cases) (simp_all add: py_get_def nat_add_distrib)

lemma py_get_prev:
  "cur \<noteq> [] \<Longrightarrow> py_get (pre @ cur @ rest) (int (length (pre @ cur)) - 1) = Inr (last cur)"
proof (cases cur rule: rev_cases)
  case Nil
  assume "cur \<noteq> []"
  with Nil show ?thesis by simp
next
  case (snoc ys y)
  have "nat (int (length pre) + int (length ys)) = length pre + length ys"
    by simp
  then have "(pre @ ys @ y # rest) ! nat (int (length pre) + int (length ys)) = y"
    by (simp add: nth_append)
  with snoc show ?thesis
    by (simp add: py_get_def)
qed

lemma peak_single: "peak [p] = (elevation p, time p)"
  by (simp add: peak_def peak_step_def)

lemma peak_snoc: "cur \<noteq> [] \<Longrightarrow> peak (cur @ [p]) = peak_step (peak cur) p"
  by (simp add: peak_def)

lemma close_window_ok:
  assumes "state_ok st seen cur" "cur \<noteq> []" "py_get positions k = Inr (last cur)"
  shows "close_window positions k st = Inr (window_of cur)"
  using assms by (auto simp: state_ok_def close_window_def window_of_def)

lemma seg_step_in:
  assumes "state_ok st seen cur" "elevation p \<ge> m"
  shows "\<exists>st'. seg_step positions m st i p = Inr st' \<and> windows st' = windows st
           \<and> state_ok st' (seen @ [p]) (cur @ [p])"
proof (cases "cur = []")
  case True
  with assms show ?thesis
    by (simp add: seg_step_def state_ok_def Let_def peak_single)
next
  case False
  with assms show ?thesis
    by (auto simp: seg_step_def state_ok_def Let_def peak_snoc peak_step_def)
qed

lemma seg_step_out:
  assumes "state_ok st seen cur" "\<not> elevation p \<ge> m" "cur \<noteq> []"
    "py_get positions (int i - 1) = Inr (last cur)"
  shows "\<exists>st'. seg_step positions m st i p = Inr st'
           \<and> windows st' = windows st @ [window_of cur]
           \<and> state_ok st' (seen @ [p]) []"
proof -
  have "close_window positions (int i - 1) st = Inr (window_of cur)"
    using assms close_window_ok by blast
  moreover have "in_window st"
    using assms by (simp add: state_ok_def)
  ultimately show ?thesis
    using assms(2) by (simp add: seg_step_def state_ok_def)
qed

lemma seg_step_idle:
  assumes "state_ok st seen []" "\<not> elevation p \<ge> m"
  shows "seg_step positions m st i p = Inr st \<and> state_ok st (seen @ [p]) []"
  using assms by (simp add: seg_step_def state_ok_def)

lemma seg_loop_runs:
  assumes "positions = seen @ rest" "length seen = i" "state_ok st seen cur"
  shows "\<exists>st'. seg_loop positions m i rest st = Inr st'
           \<and> seg_finish positions st' = Inr (windows st @ map window_of (split_runs m cur rest))"
  using assms
proof (induction rest arbitrary: seen i st cur)
  case Nil
  show ?case
  proof (cases "cur = []")
    case True
    with Nil show ?thesis by (simp add: seg_finish_def state_ok_def)
  next
    case False
    with Nil obtain pre where pre: "seen = pre @ cur"
      by (auto simp: state_ok_def)
    with Nil False have "py_get positions (-1) = Inr (last cur)"
      by (simp add: py_get_last)
    then have "close_window positions (-1) st = Inr (window_of cur)"
      using Nil.prems(3) False close_window_ok by blast
    with Nil False show ?thesis
      by (simp add: seg_finish_def state_ok_def)
  qed
next
  case (Cons p ps)
  have pos: "positions = (seen @ [p]) @ ps" and len: "length (seen @ [p]) = Suc i"
    using Cons.prems by simp_all
  show ?case
  proof (cases "elevation p \<ge> m")
    case True
    from seg_step_in[OF Cons.prems(3) True]
    obtain st1 where st1: "seg_step positions m st i p = Inr st1" "windows st1 = windows st"
      "state_ok st1 (seen @ [p]) (cur @ [p])" by blast
    from Cons.IH[OF pos len st1(3)] st1(1,2) True show ?thesis
      by simp
  next
    case below: False
    show ?thesis
    proof (cases "cur = []")
      case True
      with Cons.prems(3) below
      have "seg_step positions m st i p = Inr st" "state_ok st (seen @ [p]) []"
        using seg_step_idle by blast+
      with Cons.IH[OF pos len this(2)] below True show ?thesis
        by simp
    next
      case False
      with Cons.prems obtain pre where pre: "seen = pre @ cur"
        by (auto simp: state_ok_def)
      have "py_get (pre @ cur @ p # ps) (int (length (pre @ cur)) - 1) = Inr (last cur)"
        using False by (rule py_get_prev)
      moreover have "int i = int (length (pre @ cur))" "positions = pre @ cur @ p # ps"
        using Cons.prems(1,2) pre by auto
      ultimately have "py_get positions (int i - 1) = Inr (last cur)"
        by simp
      from seg_step_out[OF Cons.prems(3) below False this]
      obtain st1 where st1: "seg_step positions m st i p = Inr st1"
        "windows st1 = windows st @ [window_of cur]" "state_ok st1 (seen @ [p]) []" by blast
      from Cons.IH[OF pos len st1(3)] st1(1,2) below False show ?thesis
        by simp
    qed
  qed
qed

lemma find_visibility_windows_runs:
  "find_visibility_windows positions ts m = Inr (map window_of (split_runs m [] positions))"
proof -
  have "state_ok init_state [] []"
    by (simp add: state_ok_def init_state_def)
  from seg_loop_runs[of positions "[]" positions 0 init_state "[]" m, OF _ _ this]
  show ?thesis
    by (auto simp: find_visibility_windows_def init_state_def)
qed

subsection \<open>Peaks and runs\<close>

lemma fst_peak_step: "fst (peak_step pk p) = max (fst pk) (elevation p)"
  by (simp add: peak_step_def max_def)

lemma fst_foldl_peak_step:
  "fst (foldl peak_step pk xs) = Max (insert (fst pk) (elevation ` set xs))"
proof (induction xs arbitrary: pk)
  case Nil
  then show ?case by simp
next
  case (Cons x xs)
  have "Max (insert (max (fst pk) (elevation x)) (elevation ` set xs))
          = Max (insert (fst pk) (insert (elevation x) (elevation ` set xs)))"
    by (cases "set xs = {}") (simp_all add: max.assoc)
  with Cons show ?case
    by (simp add: fst_peak_step)
qed

lemma fst_peak: "run \<noteq> [] \<Longrightarrow> fst (peak run) = Max (elevation ` set run)"
proof -
  assume "run \<noteq> []"
  then have "insert (elevation (hd run)) (elevation ` set run) = elevation ` set run"
    by (cases run) auto
  then show ?thesis
    by (simp add: peak_def fst_foldl_peak_step)
qed

lemma peak_first_max:
  "run \<noteq> [] \<Longrightarrow>
     \<exists>j<length run. snd (peak run) = time (run ! j) \<and> elevation (run ! j) = fst (peak run)
        \<and> (\<forall>k<j. elevation (run ! k) < elevation (run ! j))"
proof (induction run rule: rev_nonempty_induct)
  case (single x)
  then show ?case by (simp add: peak_single)
next
  case (snoc x xs)
  then obtain j where j: "j < length xs" "snd (peak xs) = time (xs ! j)"
    "elevation (xs ! j) = fst (peak xs)" "\<forall>k<j. elevation (xs ! k) < elevation (xs ! j)"
    by blast
  show ?case
  proof (cases "elevation x > fst (peak xs)")
    case True
    have "\<forall>k<length xs. elevation (xs ! k) \<le> fst (peak xs)"
      using snoc.hyps(1) by (simp add: fst_peak)
    with True have "\<forall>k<length xs. elevation ((xs @ [x]) ! k) < elevation x"
      by (auto simp: nth_append)
    with True snoc.hyps(1) show ?thesis
      by (intro exI[of _ "length xs"]) (simp add: peak_snoc peak_step_def)
  next
    case False
    with j snoc.hyps(1) show ?thesis
      by (intro exI[of _ j]) (simp add: peak_snoc peak_step_def nth_append)
  qed
qed

lemma split_runs_props:
  assumes "\<forall>p\<in>set cur. elevation p \<ge> m" "run \<in> set (split_runs m cur rest)"
  shows "run \<noteq> [] \<and> (\<forall>p\<in>set run. elevation p \<ge> m)
           \<and> (\<exists>pre post. cur @ rest = pre @ run @ post)"
  using assms
proof (induction rest arbitrary: cur)
  case Nil
  then have "run = cur" "cur \<noteq> []"
    by (auto split: if_splits)
  moreover have "cur @ [] = [] @ cur @ []" by simp
  ultimately show ?case using Nil.prems(1) by blast
next
  case (Cons p ps)
  show ?case
  proof (cases "elevation p \<ge> m")
    case True
    with Cons.prems have "\<forall>q\<in>set (cur @ [p]). elevation q \<ge> m"
      "run \<in> set (split_runs m (cur @ [p]) ps)"
      by auto
    from Cons.IH[OF this] show ?thesis by simp
  next
    case False
    with Cons.prems consider "run = cur" "cur \<noteq> []" | "run \<in> set (split_runs m [] ps)"
      by (auto split: if_splits)
    then show ?thesis
    proof cases
      case 1
      have "cur @ p # ps = [] @ cur @ (p # ps)" by simp
      with 1 Cons.prems(1) show ?thesis by blast
    next
      case 2
      from Cons.IH[of "[]", OF _ 2] obtain pre post where
        r: "run \<noteq> []" "\<forall>q\<in>set run. elevation q \<ge> m" "ps = pre @ run @ post"
        by auto
      have "cur @ p # ps = (cur @ p # pre) @ run @ post"
        using r(3) by simp
      with r show ?thesis by blast
    qed
  qed
qed

lemma split_runs_below:
  "\<not> elevation b \<ge> m \<Longrightarrow>
     split_runs m cur (xs @ b # ys) = split_runs m cur (xs @ [b]) @ split_runs m [] ys"
  by (induction xs arbitrary: cur) simp_all

lemma split_runs_all_in:
  "\<forall>p\<in>set xs. elevation p \<ge> m \<Longrightarrow> \<not> elevation b \<ge> m \<Longrightarrow> cur @ xs \<noteq> [] \<Longrightarrow>
     split_runs m cur (xs @ [b]) = [cur @ xs]"
proof (induction xs arbitrary: cur)
  case Nil
  then show ?case by simp
next
  case (Cons x xs)
  have "split_runs m (cur @ [x]) (xs @ [b]) = [(cur @ [x]) @ xs]"
    using Cons.prems by (intro Cons.IH) simp_all
  with Cons.prems(1) show ?case by simp
qed

lemma split_runs_decomp:
  assumes "pre = [] \<or> \<not> elevation (last pre) \<ge> m" "run \<noteq> []"
    "\<forall>p\<in>set run. elevation p \<ge> m" "\<not> elevation b \<ge> m"
  shows "\<exists>A B. split_runs m [] (pre @ run @ b # ys) = A @ [run] @ B"
proof -
  have "split_runs m [] (run @ [b]) = [[] @ run]"
    using assms(2,3,4) by (intro split_runs_all_in) simp_all
  moreover have "split_runs m [] (run @ b # ys)
                   = split_runs m [] (run @ [b]) @ split_runs m [] ys"
    using assms(4) by (rule split_runs_below)
  ultimately have run: "split_runs m [] (run @ b # ys) = [run] @ split_runs m [] ys"
    by simp
  show ?thesis
  proof (cases "pre = []")
    case True
    with run show ?thesis by (metis append_Nil)
  next
    case False
    then obtain pre' b' where pre: "pre = pre' @ [b']"
      by (cases pre rule: rev_cases) auto
    with assms(1) have "\<not> elevation b' \<ge> m" by simp
    then have "split_runs m [] (pre' @ b' # (run @ b # ys))
                 = split_runs m [] (pre' @ [b']) @ split_runs m [] (run @ b # ys)"
      by (rule split_runs_below)
    with run pre have "split_runs m [] (pre @ run @ b # ys)
                 = split_runs m [] (pre' @ [b']) @ [run] @ split_runs m [] ys"
      by simp
    then show ?thesis by blast
  qed
qed

lemma run_start_exists:
  fixes f :: "nat \<Rightarrow> real"
  assumes "f i \<ge> m"
  shows "\<exists>lo\<le>i. (\<forall>j. lo \<le> j \<and> j \<le> i \<longrightarrow> f j \<ge> m) \<and> (lo = 0 \<or> f (lo - 1) < m)"
proof -
  define P where "P lo \<longleftrightarrow> lo \<le> i \<and> (\<forall>j. lo \<le> j \<and> j \<le> i \<longrightarrow> f j \<ge> m)" for lo
  have Pi: "P i" using assms by (auto simp: P_def)
  define lo where "lo = (LEAST lo. P lo)"
  have Plo: "P lo" unfolding lo_def using Pi by (rule LeastI)
  have "lo = 0 \<or> f (lo - 1) < m"
  proof (rule ccontr)
    assume "\<not> (lo = 0 \<or> f (lo - 1) < m)"
    then have pos: "lo > 0" and ge: "f (lo - 1) \<ge> m" by auto
    have "P (lo - 1)"
      unfolding P_def
    proof (intro conjI allI impI)
      from Plo have "lo \<le> i" by (simp add: P_def)
      then show "lo - 1 \<le> i" by simp
    next
      fix j assume j: "lo - 1 \<le> j \<and> j \<le> i"
      show "m \<le> f j"
      proof (cases "j = lo - 1")
        case True
        with ge show ?thesis by simp
      next
        case False
        with j have "lo \<le> j \<and> j \<le> i" by arith
        with Plo show ?thesis by (simp add: P_def)
      qed
    qed
    then have "lo \<le> lo - 1" unfolding lo_def by (rule Least_le)
    with pos show False by simp
  qed
  with Plo show ?thesis by (auto simp: P_def)
qed

subsection \<open>Rounding\<close>

lemma round_half_even_bounds: "\<lfloor>x\<rfloor> \<le> round_half_even x \<and> round_half_even x \<le> \<lfloor>x\<rfloor> + 1"
  by (simp add: round_half_even_def Let_def)

lemma round_half_even_mono:
  assumes "x \<le> y"
  shows "round_half_even x \<le> round_half_even y"
proof (cases "\<lfloor>x\<rfloor> < \<lfloor>y\<rfloor>")
  case True
  have "round_half_even x \<le> \<lfloor>x\<rfloor> + 1" "\<lfloor>y\<rfloor> \<le> round_half_even y"
    using round_half_even_bounds by blast+
  with True show ?thesis by linarith
next
  case False
  moreover have "\<lfloor>x\<rfloor> \<le> \<lfloor>y\<rfloor>" using assms by (rule floor_mono)
  ultimately have eq: "\<lfloor>x\<rfloor> = \<lfloor>y\<rfloor>" by simp
  with assms have "x - of_int \<lfloor>x\<rfloor> \<le> y - of_int \<lfloor>y\<rfloor>" by simp
  with eq show ?thesis
    by (auto simp: round_half_even_def Let_def)
qed

lemma py_round_mono: "x \<le> y \<Longrightarrow> py_round x n \<le> py_round y n"
proof -
  assume "x \<le> y"
  then have "x * 10 ^ n \<le> y * 10 ^ n" by simp
  then have "round_half_even (x * 10 ^ n) \<le> round_half_even (y * 10 ^ n)"
    by (rule round_half_even_mono)
  then show ?thesis
    by (simp add: py_round_def divide_right_mono)
qed

lemma Max_py_round:
  assumes "run \<noteq> []"
  shows "Max (elevation ` mk_point ` set run) = py_round (Max (elevation ` set run)) 2"
proof -
  have "mono (\<lambda>e. py_round e 2)"
    by (simp add: mono_def py_round_mono)
  then have "py_round (Max (elevation ` set run)) 2
               = Max ((\<lambda>e. py_round e 2) ` (elevation ` set run))"
    using assms by (intro mono_Max_commute) simp_all
  moreover have "elevation ` mk_point ` set run
                   = (\<lambda>e. py_round e 2) ` (elevation ` set run)"
    by (auto simp: mk_point_def image_iff)
  ultimately show ?thesis by simp
qed

lemma tie_eval: "find_visibility_windows [tie_sample] ts 10 = Inr [tie_window]"
proof -
  have r: "py_round (97 / 8) 2 = 303 / 25" "py_round (1 / 8) 2 = 3 / 25"
    "py_round (8001 / 8) 2 = 25003 / 25" "py_round (1 / 16) 3 = 31 / 500"
    "py_round (3201 / 8) 2 = 10003 / 25" "py_round 0 0 = 0"
    by (simp_all add: py_round_def round_half_even_def)
  have t: "strftime (utc 2024 1 1 0 0 0) = ''2024-01-01T00:00:00Z''"
    by (simp add: cal_defs Let_def)
  show ?thesis
    by (simp add: find_visibility_windows_def tie_sample_def tie_window_def tie_point_def init_state_def
        seg_step_def seg_finish_def close_window_def py_get_def mk_point_def
        total_seconds_def r t)
qed

lemma round_half_even_nearest:
  "\<bar>y - of_int (round_half_even y)\<bar> \<le> 1/2
     \<and> (\<bar>y - of_int (round_half_even y)\<bar> = 1/2 \<longrightarrow> even (round_half_even y))"
proof -
  have "of_int \<lfloor>y\<rfloor> \<le> y" "y < of_int \<lfloor>y\<rfloor> + 1"
    by linarith+
  then show ?thesis
    by (auto simp: round_half_even_def Let_def)
qed

lemma py_round_half_even: "half_even_rounding x n (py_round x n)"
  unfolding half_even_rounding_def py_round_def
  using round_half_even_nearest[of "x * 10 ^ n"] by blast

subsection \<open>The time grid and the sample generators\<close>

lemma py_timedelta_cases:
  "py_timedelta s = Inr (timedelta s) \<or> py_timedelta s = Inl OverflowError"
  by (simp add: py_timedelta_def)

lemma div_step:
  fixes a d :: int
  assumes "0 < d" "d \<le> a"
  shows "a div d = (a - d) div d + 1" "0 \<le> (a - d) div d"
proof -
  have "a = (a - d) + d" by simp
  then have "a div d = ((a - d) + d) div d" by simp
  also have "\<dots> = (a - d) div d + 1"
    using assms(1) by (subst div_add_self2) simp_all
  finally show "a div d = (a - d) div d + 1" .
  show "0 \<le> (a - d) div d"
    using assms by (simp add: pos_imp_zdiv_nonneg_iff)
qed

lemma generate_times_loop_ok:
  assumes "0 < step_seconds" "py_timedelta step_seconds = Inr (timedelta step_seconds)"
    "0 \<le> current"
    "current \<le> end' \<longrightarrow>
       current + timedelta step_seconds * ((end' - current) div timedelta step_seconds + 1)
         \<le> MAX_DATETIME"
  shows "generate_times_loop current end' step_seconds acc =
           Some (Inr (acc @ map (\<lambda>k. current + timedelta step_seconds * int k)
                         [0..<(if current \<le> end'
                               then Suc (nat ((end' - current) div timedelta step_seconds))
                               else 0)]))"
  using assms(3,4)
proof (induction "nat (end' - current + 1)" arbitrary: current acc rule: less_induct)
  case less
  define d where "d = timedelta step_seconds"
  have d: "0 < d" using assms(1) by (simp add: d_def timedelta_def)
  show ?case
  proof (cases "current \<le> end'")
    case False
    then show ?thesis
      by (subst generate_times_loop.simps) simp
  next
    case True
    define q where "q = (end' - current) div d"
    have q: "0 \<le> q"
      using True d by (simp add: q_def pos_imp_zdiv_nonneg_iff)
    have lim: "current + d * (q + 1) \<le> MAX_DATETIME"
      using less.prems(2) True by (simp add: d_def q_def)
    have "d * 1 \<le> d * (q + 1)"
      using d q by (intro mult_left_mono) simp_all
    with lim have "current + d \<le> MAX_DATETIME"
      by simp
    with less.prems(1) d have add: "dt_add current d = Inr (current + d)"
      by (simp add: dt_add_def)
    define n' where "n' = (if current + d \<le> end' then Suc (nat ((end' - (current + d)) div d)) else 0)"
    have meas: "nat (end' - (current + d) + 1) < nat (end' - current + 1)"
      using True d by simp
    have nonneg: "0 \<le> current + d"
      using less.prems(1) d by simp
    have lim': "current + d \<le> end' \<longrightarrow>
                  current + d + d * ((end' - (current + d)) div d + 1) \<le> MAX_DATETIME"
    proof
      assume le: "current + d \<le> end'"
      then have "d \<le> end' - current" by simp
      from div_step(1)[OF d this] have "q = (end' - (current + d)) div d + 1"
        by (simp add: q_def algebra_simps)
      then have "current + d + d * ((end' - (current + d)) div d + 1) = current + d * (q + 1)"
        by (simp add: algebra_simps)
      with lim show "current + d + d * ((end' - (current + d)) div d + 1) \<le> MAX_DATETIME"
        by simp
    qed
    from less.hyps[OF meas nonneg, of "acc @ [current]"] lim'
    have rec: "generate_times_loop (current + d) end' step_seconds (acc @ [current])
                 = Some (Inr ((acc @ [current]) @ map (\<lambda>k. current + d + d * int k) [0..<n']))"
      by (simp add: d_def n'_def)
    have n: "Suc (nat q) = Suc n'"
    proof (cases "current + d \<le> end'")
      case le: True
      then have "d \<le> end' - current" by simp
      from div_step[OF d this] have "q = (end' - (current + d)) div d + 1"
        "0 \<le> (end' - (current + d)) div d"
        by (simp_all add: q_def algebra_simps)
      with le show ?thesis
        by (simp add: n'_def nat_add_distrib)
    next
      case False
      with True d have "q = 0"
        by (simp add: q_def div_pos_pos_trivial)
      with False show ?thesis by (simp add: n'_def)
    qed
    have "map (\<lambda>k. current + d * int k) [0..<Suc n']
            = current # map (\<lambda>k. current + d + d * int k) [0..<n']"
      by (simp add: upt_conv_Cons map_Suc_upt[symmetric] algebra_simps del: upt_Suc)
    with rec n True add assms(2) show ?thesis
      by (subst generate_times_loop.simps) (simp add: d_def q_def)
  qed
qed

lemma generate_times_loop_overflow:
  assumes "0 < step_seconds" "py_timedelta step_seconds = Inr (timedelta step_seconds)"
    "0 \<le> current" "current \<le> end'"
    "MAX_DATETIME
       < current + timedelta step_seconds * ((end' - current) div timedelta step_seconds + 1)"
  shows "generate_times_loop current end' step_seconds acc = Some (Inl OverflowError)"
  using assms(3,4,5)
proof (induction "nat (end' - current + 1)" arbitrary: current acc rule: less_induct)
  case less
  define d where "d = timedelta step_seconds"
  have d: "0 < d" using assms(1) by (simp add: d_def timedelta_def)
  define q where "q = (end' - current) div d"
  have big: "MAX_DATETIME < current + d * (q + 1)"
    using less.prems(3) by (simp add: d_def q_def)
  show ?case
  proof (cases "current + d \<le> MAX_DATETIME")
    case False
    then have "dt_add current d = Inl OverflowError"
      by (simp add: dt_add_def)
    with less.prems(2) assms(2) show ?thesis
      by (subst generate_times_loop.simps) (simp add: d_def)
  next
    case True
    with less.prems(1) d have add: "dt_add current d = Inr (current + d)"
      by (simp add: dt_add_def)
    have le: "current + d \<le> end'"
    proof (rule ccontr)
      assume "\<not> current + d \<le> end'"
      with less.prems(2) d have "q = 0"
        by (simp add: q_def div_pos_pos_trivial)
      with big True show False by simp
    qed
    then have "d \<le> end' - current" by simp
    from div_step(1)[OF d this] have "q = (end' - (current + d)) div d + 1"
      by (simp add: q_def algebra_simps)
    then have "current + d + d * ((end' - (current + d)) div d + 1) = current + d * (q + 1)"
      by (simp add: algebra_simps)
    with big have big': "MAX_DATETIME < current + d + d * ((end' - (current + d)) div d + 1)"
      by simp
    have meas: "nat (end' - (current + d) + 1) < nat (end' - current + 1)"
      using less.prems(2) d by simp
    have nonneg: "0 \<le> current + d"
      using less.prems(1) d by simp
    from less.hyps[OF meas nonneg le, of "acc @ [current]"] big'
    have "generate_times_loop (current + d) end' step_seconds (acc @ [current])
            = Some (Inl OverflowError)"
      by (simp add: d_def)
    with add less.prems(2) assms(2) show ?thesis
      by (subst generate_times_loop.simps) (simp add: d_def)
  qed
qed

lemma generate_times_loop_no_delta:
  assumes "py_timedelta step_seconds = Inl OverflowError" "current \<le> end'"
  shows "generate_times_loop current end' step_seconds acc = Some (Inl OverflowError)"
  using assms by (subst generate_times_loop.simps) simp

lemma py_timedelta_small:
  assumes "0 < step_seconds" "timedelta step_seconds \<le> MAX_DATETIME"
  shows "py_timedelta step_seconds = Inr (timedelta step_seconds)"
proof -
  from assms(2) have "step_seconds < 3652059 * 86400"
    by (simp add: timedelta_def MAX_DATETIME_def)
  then have "step_seconds div 86400 < 3652059"
    by (simp add: div_less_iff_less_mult)
  moreover have "0 \<le> step_seconds div 86400"
    using assms(1) by (simp add: pos_imp_zdiv_nonneg_iff)
  ultimately show ?thesis
    by (simp add: py_timedelta_def)
qed

lemma generate_times_eq:
  assumes "0 < step_seconds" "0 \<le> start" "start \<le> end'"
    "start + timedelta step_seconds * ((end' - start) div timedelta step_seconds + 1)
       \<le> MAX_DATETIME"
  shows "generate_times start end' step_seconds =
           Some (Inr (map (\<lambda>k. start + timedelta step_seconds * int k)
                        [0..<Suc (nat ((end' - start) div timedelta step_seconds))]))"
proof -
  define d where "d = timedelta step_seconds"
  define q where "q = (end' - start) div d"
  have d: "0 < d" using assms(1) by (simp add: d_def timedelta_def)
  have q: "0 \<le> q"
    using assms(3) d by (simp add: q_def pos_imp_zdiv_nonneg_iff)
  have "d * 1 \<le> d * (q + 1)"
    using d q by (intro mult_left_mono) simp_all
  moreover have "start + d * (q + 1) \<le> MAX_DATETIME"
    using assms(4) by (simp add: d_def q_def)
  ultimately have "timedelta step_seconds \<le> MAX_DATETIME"
    using assms(2) by (simp add: d_def)
  then have "py_timedelta step_seconds = Inr (timedelta step_seconds)"
    by (rule py_timedelta_small[OF assms(1)])
  from generate_times_loop_ok[OF assms(1) this assms(2), of end' "[]"] assms(3,4)
  show ?thesis
    by (simp add: generate_times_def)
qed

lemma generate_times_overflow:
  assumes "0 < step_seconds" "0 \<le> start" "start \<le> end'"
    "\<not> start + timedelta step_seconds * ((end' - start) div timedelta step_seconds + 1)
         \<le> MAX_DATETIME"
  shows "generate_times start end' step_seconds = Some (Inl OverflowError)"
proof (cases "py_timedelta step_seconds = Inr (timedelta step_seconds)")
  case True
  from generate_times_loop_overflow[OF assms(1) True assms(2,3), of "[]"] assms(4)
  show ?thesis by (simp add: generate_times_def)
next
  case False
  with py_timedelta_cases[of step_seconds]
  have "py_timedelta step_seconds = Inl OverflowError" by simp
  from generate_times_loop_no_delta[OF this assms(3), of "[]"]
  show ?thesis by (simp add: generate_times_def)
qed

lemma position_at_None_iff:
  "position_at J S obs ts lat lon i dt = None \<longleftrightarrow> error_code_at J S dt \<noteq> 0"
  by (simp add: position_at_def error_code_at_def Let_def split: prod.splits)

lemma position_at_time: "position_at J S obs ts lat lon i dt = Some s \<Longrightarrow> time s = dt"
  by (auto simp: position_at_def Let_def split: prod.splits if_splits)


lemma position_at_altitude:
  "position_at J S obs ts lat lon i dt = Some s \<Longrightarrow>
     altitude s = (case jday_of J dt of (jd, fr) \<Rightarrow>
                     norm3 (teme_to_ecef (fst (snd (S jd fr))) jd fr) - EARTH_RADIUS_KM)"
  by (auto simp: position_at_def Let_def split: prod.splits if_splits)


lemma calc_loop_eq:
  "calc_loop J S obs ts lat lon i rest =
     map (\<lambda>(k, dt). the (position_at J S obs ts lat lon k dt))
       (filter (\<lambda>(k, dt). error_code_at J S dt = 0) (enumerate i rest))"
proof (induction rest arbitrary: i)
  case Nil
  then show ?case by simp
next
  case (Cons dt rest)
  show ?case
  proof (cases "position_at J S obs ts lat lon i dt")
    case None
    then have "error_code_at J S dt \<noteq> 0"
      by (simp add: position_at_None_iff)
    with None Cons show ?thesis by simp
  next
    case (Some s)
    then have "error_code_at J S dt = 0"
      using position_at_None_iff[of J S obs ts lat lon i dt] by simp
    with Some Cons show ?thesis by simp
  qed
qed

lemma enumerate_nth: "enumerate 0 xs = map (\<lambda>i. (i, xs ! i)) [0..<length xs]"
proof -
  have "enumerate 0 (map ((!) xs) [0..<length xs]) = map (\<lambda>i. (i, xs ! i)) [0..<length xs]"
    by (rule enumerate_map_upt)
  then show ?thesis by (simp add: map_nth)
qed

lemma calculate_positions_eq:
  "calculate_positions J S obs ts lat lon =
     map (\<lambda>i. the (position_at J S obs ts lat lon i (ts ! i)))
       (filter (\<lambda>i. error_code_at J S (ts ! i) = 0) [0..<length ts])"
  by (simp add: calculate_positions_def calc_loop_eq enumerate_nth filter_map comp_def)

lemma calculate_positions_times:
  "map time (calculate_positions J S obs ts lat lon) = filter (\<lambda>dt. error_code_at J S dt = 0) ts"
proof -
  have "map time (calculate_positions J S obs ts lat lon)
          = map (\<lambda>i. ts ! i) (filter (\<lambda>i. error_code_at J S (ts ! i) = 0) [0..<length ts])"
    unfolding calculate_positions_eq map_map
  proof (rule map_cong[OF refl])
    fix i assume "i \<in> set (filter (\<lambda>i. error_code_at J S (ts ! i) = 0) [0..<length ts])"
    then have "error_code_at J S (ts ! i) = 0" by simp
    then obtain s where "position_at J S obs ts lat lon i (ts ! i) = Some s"
      using position_at_None_iff[of J S obs ts lat lon i "ts ! i"] by auto
    then show "(time \<circ> (\<lambda>i. the (position_at J S obs ts lat lon i (ts ! i)))) i = ts ! i"
      by (simp add: position_at_time)
  qed
  also have "\<dots> = filter (\<lambda>dt. error_code_at J S dt = 0) (map (\<lambda>i. ts ! i) [0..<length ts])"
    by (simp add: filter_map comp_def)
  finally show ?thesis by (simp add: map_nth)
qed

lemma sky_times: "map time (sky_calculate_positions topo geo ts) = ts"
  by (induction ts) (simp_all add: sky_position_at_def Let_def split: prod.splits)



lemma sky_altitude: "altitude (sky_position_at topo geo dt) = geo (sky_time dt) - 6371"
  by (simp add: sky_position_at_def Let_def sky_time_def[symmetric] split: prod.splits)

subsection \<open>Evaluations on the concrete inputs\<close>

lemma grid_eval:
  "generate_times (utc 2024 1 1 0 0 0) (utc 2024 1 1 0 2 0) 60
     = Some (Inr [utc 2024 1 1 0 0 0, utc 2024 1 1 0 1 0, utc 2024 1 1 0 2 0])"
proof -
  have q: "(utc 2024 1 1 0 2 0 - utc 2024 1 1 0 0 0) div timedelta 60 = 2"
    by (simp add: utc_def timedelta_def)
  have "utc 2024 1 1 0 0 0 + timedelta 60 * 3 \<le> MAX_DATETIME" "0 \<le> utc 2024 1 1 0 0 0"
    by (simp_all add: utc_def timedelta_def MAX_DATETIME_def ymd2ord_def days_before_year_def
        days_before_month_def DAYS_BEFORE_MONTH_def is_leap_def)
  moreover have "utc 2024 1 1 0 0 0 \<le> utc 2024 1 1 0 2 0"
    by (simp add: utc_def)
  ultimately show ?thesis
    by (simp add: generate_times_eq q upt_conv_Cons) (simp add: utc_def timedelta_def)
qed

lemma overflow_eval:
  "generate_times (utc 9999 12 31 0 0 0) (utc 9999 12 31 0 0 0) 86400 = Some (Inl OverflowError)"
proof -
  have "0 \<le> utc 9999 12 31 0 0 0"
    "\<not> utc 9999 12 31 0 0 0
          + timedelta 86400 * ((utc 9999 12 31 0 0 0 - utc 9999 12 31 0 0 0) div timedelta 86400 + 1)
        \<le> MAX_DATETIME"
    by (simp_all add: utc_def timedelta_def MAX_DATETIME_def ymd2ord_def days_before_year_def
        days_before_month_def DAYS_BEFORE_MONTH_def is_leap_def)
  then show ?thesis
    by (intro generate_times_overflow) simp_all
qed

lemma minute_codes:
  "error_code_at minute_jday flaky_satellite (utc 2024 1 1 0 0 0) = 0"
  "error_code_at minute_jday flaky_satellite (utc 2024 1 1 0 1 0) = 1"
  "error_code_at minute_jday flaky_satellite (utc 2024 1 1 0 2 0) = 0"
  by (simp_all add: error_code_at_def jday_of_def minute_jday_def flaky_satellite_def
      dt_minute_def dt_second_def utc_def ymd2ord_def days_before_year_def
      days_before_month_def DAYS_BEFORE_MONTH_def is_leap_def)

lemma sky_eval:
  "sky_calculate_positions ramp_topocentric flat_geocentric [utc 2024 1 1 0 0 0]
     = [\<lparr>time = utc 2024 1 1 0 0 0, elevation = 45, azimuth = 180, range_km = 1000,
          rangeRate = 1, altitude = 629\<rparr>]"
proof -
  have "dt_year (utc 2024 1 1 0 0 0) = 2024" "dt_month (utc 2024 1 1 0 0 0) = 1"
    "dt_day (utc 2024 1 1 0 0 0) = 1" "dt_hour (utc 2024 1 1 0 0 0) = 0"
    "dt_minute (utc 2024 1 1 0 0 0) = 0" "dt_second (utc 2024 1 1 0 0 0) = 0"
    by (simp_all add: cal_defs Let_def)
  then show ?thesis
    by (simp add: sky_position_at_def ramp_topocentric_def flat_geocentric_def ts_utc_def
        ymd2ord_def days_before_year_def days_before_month_def DAYS_BEFORE_MONTH_def
        is_leap_def)
qed

lemma sgp4_altitude:
  "position_at J S obs ts lat lon i dt = Some s \<Longrightarrow>
     altitude s = (case jday_of J dt of (jd, fr) \<Rightarrow>
                     norm3 (teme_to_ecef (fst (snd (S jd fr))) jd fr) - 6378.137)"
  by (simp add: position_at_altitude EARTH_RADIUS_KM_def)

lemma sgp4_failed_steps_skipped:
  "calculate_positions J S obs ts lat lon
     = map (\<lambda>i. the (position_at J S obs ts lat lon i (ts ! i)))
         (filter (\<lambda>i. error_code_at J S (ts ! i) = 0) [0..<length ts])
   \<and> map time (calculate_positions J S obs ts lat lon)
       = filter (\<lambda>dt. error_code_at J S dt = 0) ts
   \<and> (generate_times (tw_start tc) (tw_end tc) (tw_step tc) = Some (Inr ts) \<longrightarrow>
        (\<exists>ws. find_visibility_windows
                 (calculate_positions J S
                    (geodetic_to_ecef (latitude tc) (longitude tc) (altitude_m tc / 1000))
                    ts (latitude tc) (longitude tc))
                 ts (minElevation tc) = Inr ws
           \<and> calculate J S tc
               = Some (Inr \<lparr>testCase = name tc, implementation = ''python-sgp4'',
                            version = ''1.0.0'', visibilityWindows = ws\<rparr>)))"
  by (simp add: calculate_positions_eq[symmetric] calculate_positions_times calculate_def
      find_visibility_windows_runs)

lemma sgp4_three_steps:
  "generate_times (tw_start three_steps) (tw_end three_steps) (tw_step three_steps)
     = Some (Inr [utc 2024 1 1 0 0 0, utc 2024 1 1 0 1 0, utc 2024 1 1 0 2 0])
   \<and> map time (calculate_positions minute_jday flaky_satellite (0, 0, 0)
                  [utc 2024 1 1 0 0 0, utc 2024 1 1 0 1 0, utc 2024 1 1 0 2 0] 0 0)
       = [utc 2024 1 1 0 0 0, utc 2024 1 1 0 2 0]
   \<and> (\<exists>ws. calculate minute_jday flaky_satellite three_steps
               = Some (Inr \<lparr>testCase = ''three'', implementation = ''python-sgp4'',
                            version = ''1.0.0'', visibilityWindows = ws\<rparr>))"
proof -
  have g: "generate_times (tw_start three_steps) (tw_end three_steps) (tw_step three_steps)
             = Some (Inr [utc 2024 1 1 0 0 0, utc 2024 1 1 0 1 0, utc 2024 1 1 0 2 0])"
    by (simp add: three_steps_def grid_eval)
  from sgp4_failed_steps_skipped[of minute_jday flaky_satellite "(0, 0, 0)"
      "[utc 2024 1 1 0 0 0, utc 2024 1 1 0 1 0, utc 2024 1 1 0 2 0]" 0 0 three_steps] g
  show ?thesis
    by (auto simp: minute_codes three_steps_def)
qed

section \<open>The claims\<close>

text \<open>
  C1.  On the scenario of the specification (elevations 5, 12, 20, 15, 8, 3, 11, 9 at
  60-second steps from 2024-01-01T00:00:00Z, threshold 10) the segmenter returns exactly
  two windows.  The first runs from 00:01:00Z to 00:03:00Z, peaks at 20 at 00:02:00Z, lasts
  120 seconds and has the three points of elevations 12, 20 and 15; the second starts and
  ends at 00:06:00Z, peaks at 11, lasts 0 seconds and has one point.
\<close>

theorem scenario_two_windows:
  "find_visibility_windows (scenario az rg rr al) ts 10 =
     Inr [\<lparr>w_start = ''2024-01-01T00:01:00Z'', w_end = ''2024-01-01T00:03:00Z'',
           maxElevation = 20, maxElevationTime = ''2024-01-01T00:02:00Z'', duration = 120,
           points =
             [\<lparr>time = ''2024-01-01T00:01:00Z'', elevation = 12, azimuth = py_round (az 1) 2,
               range_km = py_round (rg 1) 2, rangeRate = py_round (rr 1) 3,
               altitude = py_round (al 1) 2\<rparr>,
              \<lparr>time = ''2024-01-01T00:02:00Z'', elevation = 20, azimuth = py_round (az 2) 2,
               range_km = py_round (rg 2) 2, rangeRate = py_round (rr 2) 3,
               altitude = py_round (al 2) 2\<rparr>,
              \<lparr>time = ''2024-01-01T00:03:00Z'', elevation = 15, azimuth = py_round (az 3) 2,
               range_km = py_round (rg 3) 2, rangeRate = py_round (rr 3) 3,
               altitude = py_round (al 3) 2\<rparr>]\<rparr>,
          \<lparr>w_start = ''2024-01-01T00:06:00Z'', w_end = ''2024-01-01T00:06:00Z'',
           maxElevation = 11, maxElevationTime = ''2024-01-01T00:06:00Z'', duration = 0,
           points =
             [\<lparr>time = ''2024-01-01T00:06:00Z'', elevation = 11, azimuth = py_round (az 6) 2,
               range_km = py_round (rg 6) 2, rangeRate = py_round (rr 6) 3,
               altitude = py_round (al 6) 2\<rparr>]\<rparr>]"
proof -
  have r: "py_round 12 2 = 12" "py_round 20 2 = 20" "py_round 15 2 = 15" "py_round 11 2 = 11"
    "py_round 120 0 = 120" "py_round 0 0 = 0"
    by (simp_all add: py_round_def round_half_even_def)
  have t: "strftime (utc 2024 1 1 0 0 0 + 60000000) = ''2024-01-01T00:01:00Z''"
    "strftime (utc 2024 1 1 0 0 0 + 120000000) = ''2024-01-01T00:02:00Z''"
    "strftime (utc 2024 1 1 0 0 0 + 180000000) = ''2024-01-01T00:03:00Z''"
    "strftime (utc 2024 1 1 0 0 0 + 360000000) = ''2024-01-01T00:06:00Z''"
    by (simp_all add: cal_defs Let_def)
  show ?thesis
    by (simp add: find_visibility_windows_def scenario_def scenario_sample_def init_state_def
        seg_step_def seg_finish_def close_window_def py_get_def mk_point_def timedelta_def
        total_seconds_def r t)
qed

text \<open>
  C2.  Whenever sample \<open>i\<close> is at or above the threshold and sample \<open>i + 1\<close> is below
  it, the segmenter returns a window for the maximal run of in-threshold samples
  \<open>lo..i\<close> that ends with sample \<open>i\<close>: its points are those samples, its end is the
  timestamp of sample \<open>i\<close> (not that of sample \<open>i + 1\<close>), and its duration is the end
  minus the start, in seconds, rounded to a whole number.
\<close>

theorem window_closure:
  assumes "Suc i < length positions" "elevation (positions ! i) \<ge> m"
    "elevation (positions ! Suc i) < m"
  shows "\<exists>ws k lo. find_visibility_windows positions ts m = Inr ws \<and> k < length ws \<and> lo \<le> i
           \<and> (\<forall>j. lo \<le> j \<and> j \<le> i \<longrightarrow> elevation (positions ! j) \<ge> m)
           \<and> (lo = 0 \<or> elevation (positions ! (lo - 1)) < m)
           \<and> points (ws ! k) = map mk_point (take (Suc i - lo) (drop lo positions))
           \<and> w_start (ws ! k) = strftime (time (positions ! lo))
           \<and> w_end (ws ! k) = strftime (time (positions ! i))
           \<and> duration (ws ! k)
               = py_round (total_seconds (time (positions ! i) - time (positions ! lo))) 0"
proof -
  from run_start_exists[of m "\<lambda>j. elevation (positions ! j)" i, OF assms(2)]
  obtain lo where lo: "lo \<le> i" "\<forall>j. lo \<le> j \<and> j \<le> i \<longrightarrow> elevation (positions ! j) \<ge> m"
    "lo = 0 \<or> elevation (positions ! (lo - 1)) < m"
    by blast
  define pre where "pre = take lo positions"
  define run where "run = take (Suc i - lo) (drop lo positions)"
  define b where "b = positions ! Suc i"
  define ys where "ys = drop (Suc (Suc i)) positions"
  have len: "length run = Suc i - lo"
    using assms(1) lo(1) by (simp add: run_def)
  have nth: "run ! j = positions ! (lo + j)" if "j < Suc i - lo" for j
    using that assms(1) lo(1) by (simp add: run_def)
  have ne: "run \<noteq> []"
    using len lo(1) by auto
  have "drop lo positions = run @ drop (Suc i - lo) (drop lo positions)"
    unfolding run_def by (rule append_take_drop_id[symmetric])
  also have "drop (Suc i - lo) (drop lo positions) = drop (Suc i) positions"
    using lo(1) by simp
  also have "drop (Suc i) positions = b # ys"
    using assms(1) by (simp add: b_def ys_def Cons_nth_drop_Suc)
  finally have "drop lo positions = run @ b # ys" .
  then have split: "positions = pre @ run @ b # ys"
    unfolding pre_def by (metis append_take_drop_id)
  have hd: "hd run = positions ! lo"
    using ne nth[of 0] lo(1) by (simp add: hd_conv_nth)
  have last: "last run = positions ! i"
    using ne nth[of "i - lo"] lo(1) len by (simp add: last_conv_nth)
  have all: "\<forall>p\<in>set run. elevation p \<ge> m"
  proof
    fix p assume "p \<in> set run"
    then obtain j where "j < length run" "p = run ! j"
      by (auto simp: in_set_conv_nth)
    with len nth lo(2) show "elevation p \<ge> m" by simp
  qed
  have pre: "pre = [] \<or> \<not> elevation (last pre) \<ge> m"
  proof (cases "lo = 0")
    case True
    then show ?thesis by (simp add: pre_def)
  next
    case False
    with lo(1) assms(1) have "pre \<noteq> []" "length pre = lo"
      by (auto simp: pre_def)
    then have "last pre = pre ! (lo - 1)"
      by (simp add: last_conv_nth)
    also have "pre ! (lo - 1) = positions ! (lo - 1)"
      using False by (simp add: pre_def)
    finally have "last pre = positions ! (lo - 1)" .
    with False lo(3) show ?thesis by simp
  qed
  have below: "\<not> elevation b \<ge> m"
    using assms(3) by (simp add: b_def)
  from split_runs_decomp[OF pre ne all below, of ys] split
  obtain A B where AB: "split_runs m [] positions = A @ [run] @ B"
    by auto
  define ws where "ws = map window_of (A @ [run] @ B)"
  have ws: "find_visibility_windows positions ts m = Inr ws"
    by (simp add: ws_def find_visibility_windows_runs AB)
  have k: "length A < length ws" "ws ! length A = window_of run"
    by (simp_all add: ws_def nth_append)
  have "points (window_of run) = map mk_point run"
    "w_start (window_of run) = strftime (time (positions ! lo))"
    "w_end (window_of run) = strftime (time (positions ! i))"
    "duration (window_of run)
       = py_round (total_seconds (time (positions ! i) - time (positions ! lo))) 0"
    by (simp_all add: window_of_def hd last)
  with ws k lo show ?thesis
    unfolding run_def by metis
qed

theorem window_closure_witness:
  "Suc 3 < length zero_scenario \<and> elevation (zero_scenario ! 3) \<ge> 10
     \<and> elevation (zero_scenario ! Suc 3) < 10
     \<and> (\<exists>ws k. find_visibility_windows zero_scenario [] 10 = Inr ws \<and> k < length ws
           \<and> w_end (ws ! k) = strftime (time (zero_scenario ! 3)))"
proof -
  have h: "Suc 3 < length zero_scenario" "elevation (zero_scenario ! 3) \<ge> 10"
    "elevation (zero_scenario ! Suc 3) < 10"
    by (simp_all add: zero_scenario_def scenario_def scenario_sample_def)
  from window_closure[OF h, of "[]"] h show ?thesis
    by blast
qed

text \<open>
  C3, as amended.  Every window the segmenter returns stands for a non-empty run of
  neighbouring samples, all of them at or above the threshold (unrounded).  Its
  \<open>maxElevation\<close> is the maximum elevation of those samples rounded to two decimals,
  which is also the maximum of the elevations of its points; its \<open>maxElevationTime\<close> is
  the timestamp of the first sample of the run that attains the unrounded maximum.
\<close>

theorem window_invariant:
  assumes "find_visibility_windows positions ts m = Inr ws" "w \<in> set ws"
  shows "\<exists>pre run post. positions = pre @ run @ post \<and> run \<noteq> []
           \<and> points w = map mk_point run
           \<and> (\<forall>p\<in>set run. elevation p \<ge> m)
           \<and> maxElevation w = py_round (Max (elevation ` set run)) 2
           \<and> maxElevation w = Max (elevation ` set (points w))
           \<and> (\<exists>j<length run. maxElevationTime w = strftime (time (run ! j))
                 \<and> elevation (run ! j) = Max (elevation ` set run)
                 \<and> (\<forall>k<j. elevation (run ! k) < elevation (run ! j)))"
proof -
  from assms obtain run where run: "run \<in> set (split_runs m [] positions)" "w = window_of run"
    by (auto simp: find_visibility_windows_runs)
  from split_runs_props[of "[]" m run positions] run(1)
  obtain pre post where r: "run \<noteq> []" "\<forall>p\<in>set run. elevation p \<ge> m"
    "positions = pre @ run @ post"
    by auto
  from peak_first_max[OF r(1)] obtain j where j: "j < length run"
    "snd (peak run) = time (run ! j)" "elevation (run ! j) = fst (peak run)"
    "\<forall>k<j. elevation (run ! k) < elevation (run ! j)"
    by blast
  have "points w = map mk_point run"
    "maxElevation w = py_round (Max (elevation ` set run)) 2"
    "maxElevation w = Max (elevation ` set (points w))"
    "maxElevationTime w = strftime (time (run ! j))"
    "elevation (run ! j) = Max (elevation ` set run)"
    using r(1) j by (simp_all add: run(2) window_of_def fst_peak Max_py_round)
  with r j(1,4) show ?thesis by blast
qed

theorem window_invariant_witness:
  "find_visibility_windows [tie_sample] [] 10 = Inr [tie_window]
     \<and> tie_window \<in> set [tie_window]
     \<and> (\<exists>pre run post. [tie_sample] = pre @ run @ post \<and> run \<noteq> []
           \<and> points tie_window = map mk_point run
           \<and> maxElevation tie_window = py_round (Max (elevation ` set run)) 2)"
proof -
  have h: "find_visibility_windows [tie_sample] [] 10 = Inr [tie_window]"
    "tie_window \<in> set [tie_window]"
    by (simp_all add: tie_eval)
  from window_invariant[OF h] h show ?thesis
    by blast
qed

text \<open>
  The claim as stated fails where rounding changes the peak: the only sample has
  elevation 12.125, and the window reports 12.12.
\<close>

theorem window_invariant_counterexample:
  "find_visibility_windows [tie_sample] [] 10 = Inr [tie_window]
     \<and> maxElevation tie_window = 12.12
     \<and> Max (elevation ` set [tie_sample]) = 12.125"
  by (simp add: tie_eval) (simp add: tie_window_def tie_sample_def)

text \<open>
  C4.  The manual-transform variant does what is claimed (\<open>sgp4_failed_steps_skipped\<close>:
  a step whose propagation returns a nonzero error code gives no sample, the loop goes on,
  and the calculation returns its result).  The library-delegated variant has no such
  check: whatever the library returns at a time step, the step gives a sample.  On the grid
  00:00:00, 00:01:00, 00:02:00 with a propagation that fails at 00:01:00 the first variant
  emits the samples of 00:00:00 and 00:02:00, the second a sample for each of the three
  times.
\<close>

theorem skyfield_emits_failed_steps:
  "error_code_at minute_jday flaky_satellite (utc 2024 1 1 0 1 0) \<noteq> 0
   \<and> map time (calculate_positions minute_jday flaky_satellite observer_ecef
                  [utc 2024 1 1 0 0 0, utc 2024 1 1 0 1 0, utc 2024 1 1 0 2 0] lat lon)
       = [utc 2024 1 1 0 0 0, utc 2024 1 1 0 2 0]
   \<and> map time (sky_calculate_positions topocentric geocentric
                  [utc 2024 1 1 0 0 0, utc 2024 1 1 0 1 0, utc 2024 1 1 0 2 0])
       = [utc 2024 1 1 0 0 0, utc 2024 1 1 0 1 0, utc 2024 1 1 0 2 0]
   \<and> length (sky_calculate_positions topocentric geocentric ts) = length ts"
proof -
  have "length (sky_calculate_positions topocentric geocentric ts) = length ts"
    using sky_times[of topocentric geocentric ts] by (metis length_map)
  moreover have "map time (sky_calculate_positions topocentric geocentric
                   [utc 2024 1 1 0 0 0, utc 2024 1 1 0 1 0, utc 2024 1 1 0 2 0])
                   = [utc 2024 1 1 0 0 0, utc 2024 1 1 0 1 0, utc 2024 1 1 0 2 0]"
    by (rule sky_times)
  moreover have "map time (calculate_positions minute_jday flaky_satellite observer_ecef
                   [utc 2024 1 1 0 0 0, utc 2024 1 1 0 1 0, utc 2024 1 1 0 2 0] lat lon)
                   = [utc 2024 1 1 0 0 0, utc 2024 1 1 0 2 0]"
    by (simp add: calculate_positions_times minute_codes)
  moreover have "error_code_at minute_jday flaky_satellite (utc 2024 1 1 0 1 0) \<noteq> 0"
    by (simp add: minute_codes)
  ultimately show ?thesis
    by blast
qed




text \<open>
  C6, as amended.  Take a start that is a valid timestamp and not after the end, and a
  positive step.  If the first time after the grid, the last grid time plus the step, is
  still a \<^verbatim>\<open>datetime\<close> (at most 9999-12-31T23:59:59.999999), the time grid is returned:
  it starts with the start time, each further time is the one before plus the step, its
  last time is at most the end time, and one step more would pass the end time; when start
  and end are equal it is the start time alone, and the manual-transform variant then
  gives exactly one sample if the propagation succeeds there (none if it fails), the
  library-delegated variant one sample.  Otherwise the loop, which always steps once past
  the last grid time, raises \<^verbatim>\<open>OverflowError\<close>.
\<close>

theorem time_grid:
  assumes "0 \<le> start" "start \<le> end'" "0 < step_seconds"
  shows "if start + timedelta step_seconds * ((end' - start) div timedelta step_seconds + 1)
              \<le> MAX_DATETIME
         then
           (\<exists>times'. generate_times start end' step_seconds = Some (Inr times')
              \<and> times' = map (\<lambda>k. start + timedelta step_seconds * int k) [0..<length times']
              \<and> times' \<noteq> [] \<and> hd times' = start
              \<and> (\<forall>i. Suc i < length times' \<longrightarrow>
                     times' ! Suc i = times' ! i + timedelta step_seconds)
              \<and> last times' \<le> end' \<and> end' < last times' + timedelta step_seconds
              \<and> (start = end' \<longrightarrow> times' = [start]
                   \<and> (error_code_at jday satellite start = 0 \<longrightarrow>
                         length (calculate_positions jday satellite observer_ecef times' lat lon) = 1)
                   \<and> (error_code_at jday satellite start \<noteq> 0 \<longrightarrow>
                         calculate_positions jday satellite observer_ecef times' lat lon = [])
                   \<and> length (sky_calculate_positions topocentric geocentric times') = 1))
         else generate_times start end' step_seconds = Some (Inl OverflowError)"
proof (cases "start + timedelta step_seconds * ((end' - start) div timedelta step_seconds + 1)
                \<le> MAX_DATETIME")
  case False
  with generate_times_overflow[OF assms(3,1,2)] show ?thesis
    by simp
next
  case fits: True
  define d where "d = timedelta step_seconds"
  define n where "n = nat ((end' - start) div d)"
  define times' where "times' = map (\<lambda>k. start + d * int k) [0..<Suc n]"
  have d: "0 < d" using assms(3) by (simp add: d_def timedelta_def)
  have q: "0 \<le> (end' - start) div d"
    using assms(2) d by (simp add: pos_imp_zdiv_nonneg_iff)
  then have n: "int n = (end' - start) div d"
    by (simp add: n_def)
  have "end' - start = d * ((end' - start) div d) + (end' - start) mod d"
    by simp
  moreover have "0 \<le> (end' - start) mod d" "(end' - start) mod d < d"
    using d by simp_all
  ultimately have bounds: "d * int n \<le> end' - start" "end' - start < d * int n + d"
    unfolding n by linarith+
  have gen: "generate_times start end' step_seconds = Some (Inr times')"
    using generate_times_eq[OF assms(3,1,2) fits] by (simp add: times'_def d_def n_def)
  have len: "length times' = Suc n"
    by (simp add: times'_def)
  have form: "times' = map (\<lambda>k. start + timedelta step_seconds * int k) [0..<length times']"
    unfolding len by (simp add: times'_def d_def)
  have ne: "times' \<noteq> []"
    using len by auto
  have hd: "hd times' = start"
    by (simp add: times'_def upt_conv_Cons del: upt_Suc)
  have nth: "times' ! i = start + d * int i" if "i < Suc n" for i
    using that unfolding times'_def by (simp only: nth_map_upt) simp
  have step: "\<forall>i. Suc i < length times' \<longrightarrow> times' ! Suc i = times' ! i + timedelta step_seconds"
    using nth by (simp add: len algebra_simps d_def)
  have last: "last times' = start + d * int n"
    by (simp add: times'_def)
  have one: "times' = [start]" if "start = end'"
    using that by (simp add: times'_def n_def)
  have ok: "length (calculate_positions jday satellite observer_ecef [start] lat lon) = 1"
    if "error_code_at jday satellite start = 0"
    using that by (simp add: calculate_positions_eq)
  have bad: "calculate_positions jday satellite observer_ecef [start] lat lon = []"
    if "error_code_at jday satellite start \<noteq> 0"
    using that by (simp add: calculate_positions_eq)
  from gen form ne hd step last bounds one ok bad
  have "\<exists>times'. generate_times start end' step_seconds = Some (Inr times')
              \<and> times' = map (\<lambda>k. start + timedelta step_seconds * int k) [0..<length times']
              \<and> times' \<noteq> [] \<and> hd times' = start
              \<and> (\<forall>i. Suc i < length times' \<longrightarrow>
                     times' ! Suc i = times' ! i + timedelta step_seconds)
              \<and> last times' \<le> end' \<and> end' < last times' + timedelta step_seconds
              \<and> (start = end' \<longrightarrow> times' = [start]
                   \<and> (error_code_at jday satellite start = 0 \<longrightarrow>
                         length (calculate_positions jday satellite observer_ecef times' lat lon) = 1)
                   \<and> (error_code_at jday satellite start \<noteq> 0 \<longrightarrow>
                         calculate_positions jday satellite observer_ecef times' lat lon = [])
                   \<and> length (sky_calculate_positions topocentric geocentric times') = 1)"
    by (intro exI[of _ times']) (auto simp: d_def)
  with fits show ?thesis
    by simp
qed

theorem time_grid_witness:
  "0 \<le> utc 2024 1 1 0 0 0 \<and> utc 2024 1 1 0 0 0 \<le> utc 2024 1 1 0 2 0 \<and> (0::int) < 60
   \<and> utc 2024 1 1 0 0 0
        + timedelta 60 * ((utc 2024 1 1 0 2 0 - utc 2024 1 1 0 0 0) div timedelta 60 + 1)
      \<le> MAX_DATETIME
   \<and> (\<exists>times'. generate_times (utc 2024 1 1 0 0 0) (utc 2024 1 1 0 2 0) 60 = Some (Inr times')
         \<and> times' = [utc 2024 1 1 0 0 0, utc 2024 1 1 0 1 0, utc 2024 1 1 0 2 0]
         \<and> times' ! Suc 0 = times' ! 0 + timedelta 60
         \<and> times' ! Suc 1 = times' ! 1 + timedelta 60
         \<and> last times' \<le> utc 2024 1 1 0 2 0
         \<and> utc 2024 1 1 0 2 0 < last times' + timedelta 60)
   \<and> error_code_at minute_jday flaky_satellite (utc 2024 1 1 0 0 0) = 0
   \<and> generate_times (utc 2024 1 1 0 0 0) (utc 2024 1 1 0 0 0) 60
       = Some (Inr [utc 2024 1 1 0 0 0])
   \<and> length (calculate_positions minute_jday flaky_satellite (0, 0, 0)
                [utc 2024 1 1 0 0 0] 0 0) = 1
   \<and> error_code_at minute_jday flaky_satellite (utc 2024 1 1 0 1 0) \<noteq> 0
   \<and> generate_times (utc 2024 1 1 0 1 0) (utc 2024 1 1 0 1 0) 60
       = Some (Inr [utc 2024 1 1 0 1 0])
   \<and> calculate_positions minute_jday flaky_satellite (0, 0, 0) [utc 2024 1 1 0 1 0] 0 0 = []"
proof -
  have v: "0 \<le> utc 2024 1 1 0 0 0" "0 \<le> utc 2024 1 1 0 1 0"
    "utc 2024 1 1 0 0 0 \<le> utc 2024 1 1 0 2 0" "(0::int) < 60"
    "utc 2024 1 1 0 0 0
       + timedelta 60 * ((utc 2024 1 1 0 2 0 - utc 2024 1 1 0 0 0) div timedelta 60 + 1)
     \<le> MAX_DATETIME"
    "utc 2024 1 1 0 0 0 + timedelta 60 \<le> MAX_DATETIME"
    "utc 2024 1 1 0 1 0 + timedelta 60 \<le> MAX_DATETIME"
    by (simp_all add: utc_def timedelta_def MAX_DATETIME_def ymd2ord_def days_before_year_def
        days_before_month_def DAYS_BEFORE_MONTH_def is_leap_def)
  from time_grid[OF v(1,3,4), of minute_jday flaky_satellite "(0, 0, 0)" 0 0
      ramp_topocentric flat_geocentric] v(5)
  obtain times' where g: "generate_times (utc 2024 1 1 0 0 0) (utc 2024 1 1 0 2 0) 60
                            = Some (Inr times')"
    "\<forall>i. Suc i < length times' \<longrightarrow> times' ! Suc i = times' ! i + timedelta 60"
    "last times' \<le> utc 2024 1 1 0 2 0" "utc 2024 1 1 0 2 0 < last times' + timedelta 60"
    by auto
  from g(1) have eq: "times' = [utc 2024 1 1 0 0 0, utc 2024 1 1 0 1 0, utc 2024 1 1 0 2 0]"
    by (simp add: grid_eval)
  from eq have "Suc 0 < length times'" "Suc 1 < length times'"
    by simp_all
  with g(2) have "times' ! Suc 0 = times' ! 0 + timedelta 60"
    "times' ! Suc 1 = times' ! 1 + timedelta 60"
    by blast+
  with g eq have a: "\<exists>times'. generate_times (utc 2024 1 1 0 0 0) (utc 2024 1 1 0 2 0) 60
                       = Some (Inr times')
         \<and> times' = [utc 2024 1 1 0 0 0, utc 2024 1 1 0 1 0, utc 2024 1 1 0 2 0]
         \<and> times' ! Suc 0 = times' ! 0 + timedelta 60
         \<and> times' ! Suc 1 = times' ! 1 + timedelta 60
         \<and> last times' \<le> utc 2024 1 1 0 2 0
         \<and> utc 2024 1 1 0 2 0 < last times' + timedelta 60"
    by blast
  from time_grid[OF v(1) order_refl v(4), of minute_jday flaky_satellite "(0, 0, 0)" 0 0
      ramp_topocentric flat_geocentric] v(6)
  have b: "generate_times (utc 2024 1 1 0 0 0) (utc 2024 1 1 0 0 0) 60
             = Some (Inr [utc 2024 1 1 0 0 0])
           \<and> length (calculate_positions minute_jday flaky_satellite (0, 0, 0)
                        [utc 2024 1 1 0 0 0] 0 0) = 1"
    by (auto simp: minute_codes)
  from time_grid[OF v(2) order_refl v(4), of minute_jday flaky_satellite "(0, 0, 0)" 0 0
      ramp_topocentric flat_geocentric] v(7)
  have c: "generate_times (utc 2024 1 1 0 1 0) (utc 2024 1 1 0 1 0) 60
             = Some (Inr [utc 2024 1 1 0 1 0])
           \<and> calculate_positions minute_jday flaky_satellite (0, 0, 0)
                 [utc 2024 1 1 0 1 0] 0 0 = []"
    by (auto simp: minute_codes)
  have m: "error_code_at minute_jday flaky_satellite (utc 2024 1 1 0 0 0) = 0"
    "error_code_at minute_jday flaky_satellite (utc 2024 1 1 0 1 0) \<noteq> 0"
    by (simp_all add: minute_codes)
  from a b c v(1,3,4,5) m show ?thesis
    by blast
qed

text \<open>
  The claim as stated fails at the end of the calendar: with start and end both
  9999-12-31T00:00:00Z and a step of one day no grid is returned.
\<close>

theorem time_grid_overflow_counterexample:
  "0 \<le> utc 9999 12 31 0 0 0 \<and> utc 9999 12 31 0 0 0 \<le> MAX_DATETIME
   \<and> utc 9999 12 31 0 0 0 \<le> utc 9999 12 31 0 0 0 \<and> (0::int) < 86400
   \<and> strftime (utc 9999 12 31 0 0 0) = ''9999-12-31T00:00:00Z''
   \<and> generate_times (utc 9999 12 31 0 0 0) (utc 9999 12 31 0 0 0) 86400
       = Some (Inl OverflowError)"
proof -
  have "0 \<le> utc 9999 12 31 0 0 0" "utc 9999 12 31 0 0 0 \<le> MAX_DATETIME"
    by (simp_all add: utc_def MAX_DATETIME_def ymd2ord_def days_before_year_def
        days_before_month_def DAYS_BEFORE_MONTH_def is_leap_def)
  moreover have "strftime (utc 9999 12 31 0 0 0) = ''9999-12-31T00:00:00Z''"
    by (simp add: cal_defs Let_def)
  ultimately show ?thesis
    by (simp add: overflow_eval)
qed

text \<open>
  C7, as amended.  For every Julian day \<open>jd\<close> and day fraction \<open>fr\<close>, with
  \<open>T = (jd - 2451545.0 + fr) / 36525\<close>, the sidereal angle is
  \<open>24110.54841 + 8640184.812866 T + 0.093104 T\<^sup>2 - 6.2e-6 T\<^sup>3 + 86400 * 1.00273790935 fr\<close>
  seconds modulo 86400, times \<open>2 pi / 86400\<close>; it lies in \<open>[0, 2 pi)\<close>.  The factor
  of the day fraction is 1.00273790935.
\<close>

theorem gmst_formula:
  "gmst jd fr =
     (let T = (jd - 2451545.0 + fr) / 36525
      in py_fmod (24110.54841 + 8640184.812866 * T + 0.093104 * T\<^sup>2 - 6.2 / 10 ^ 6 * T ^ 3
                    + 86400 * 1.00273790935 * fr) 86400
           * (2 * pi / 86400))
   \<and> 0 \<le> gmst jd fr \<and> gmst jd fr < 2 * pi"
proof -
  have mod_bounds: "0 \<le> py_fmod x 86400 \<and> py_fmod x 86400 < 86400" for x
  proof -
    have "of_int \<lfloor>x / 86400\<rfloor> \<le> x / 86400" "x / 86400 < of_int \<lfloor>x / 86400\<rfloor> + 1"
      by linarith+
    then show ?thesis
      by (simp add: py_fmod_def field_simps)
  qed
  have eq: "gmst jd fr =
     (let T = (jd - 2451545.0 + fr) / 36525
      in py_fmod (24110.54841 + 8640184.812866 * T + 0.093104 * T\<^sup>2 - 6.2 / 10 ^ 6 * T ^ 3
                    + 86400 * 1.00273790935 * fr) 86400
           * (2 * pi / 86400))"
    by (simp add: gmst_def Let_def power2_eq_square power3_eq_cube algebra_simps)
  obtain x where x: "gmst jd fr = py_fmod x 86400 * (2 * pi / 86400)"
    by (simp add: gmst_def Let_def)
  from mod_bounds[of x] have "0 \<le> py_fmod x 86400 * (2 * pi / 86400)"
    by simp
  then have lower: "0 \<le> gmst jd fr"
    by (simp only: x)
  from mod_bounds[of x] have "py_fmod x 86400 * (2 * pi / 86400) < 86400 * (2 * pi / 86400)"
    by (intro mult_strict_right_mono) simp_all
  then have "py_fmod x 86400 * (2 * pi / 86400) < 2 * pi"
    by simp
  then have upper: "gmst jd fr < 2 * pi"
    by (simp only: x)
  from eq lower upper show ?thesis
    by blast
qed


text \<open>
  The claim as stated, with the factor 1.0027379093, fails at \<open>jd = 2451544.5\<close>,
  \<open>fr = 0.5\<close>.
\<close>

theorem gmst_coefficient_counterexample: "gmst 2451544.5 0.5 \<noteq> gmst_spec 2451544.5 0.5"
  by (simp add: gmst_def gmst_spec_def py_fmod_def Let_def)

text \<open>
  C8.  The claim holds of the manual-transform variant (\<open>sgp4_altitude\<close>: the norm of
  the Earth-fixed position minus 6378.137).  The library-delegated variant subtracts
  6371.0 instead: at a geocentric distance of 7000 km it reports an altitude of 629, where
  the equatorial radius gives 621.863.
\<close>

theorem skyfield_altitude_radius:
  "altitude (hd (sky_calculate_positions ramp_topocentric flat_geocentric
                   [utc 2024 1 1 0 0 0])) = 629
   \<and> flat_geocentric (sky_time (utc 2024 1 1 0 0 0)) - EARTH_RADIUS_KM = 621.863"
  by (subst sky_eval) (simp add: flat_geocentric_def EARTH_RADIUS_KM_def)

text \<open>
  C9, as amended.  Every point of every returned window comes from a sample at or above
  the threshold; its azimuth, elevation, range and altitude are the sample's values
  rounded to the nearest multiple of 0.01 and its range rate to the nearest multiple of
  0.001, a tie going to the even multiple (the rule of the built-in \<^verbatim>\<open>round\<close>).
\<close>

theorem points_rounded_half_even:
  assumes "find_visibility_windows positions ts m = Inr ws" "w \<in> set ws"
    "pt \<in> set (points w)"
  shows "\<exists>p\<in>set positions. elevation p \<ge> m \<and> pt = mk_point p
           \<and> time pt = strftime (time p)
           \<and> half_even_rounding (azimuth p) 2 (azimuth pt)
           \<and> half_even_rounding (elevation p) 2 (elevation pt)
           \<and> half_even_rounding (range_km p) 2 (range_km pt)
           \<and> half_even_rounding (rangeRate p) 3 (rangeRate pt)
           \<and> half_even_rounding (altitude p) 2 (altitude pt)"
proof -
  from assms(1,2) obtain run where run: "run \<in> set (split_runs m [] positions)"
    "w = window_of run"
    by (auto simp: find_visibility_windows_runs)
  from split_runs_props[of "[]" m run positions] run(1)
  obtain pre post where r: "\<forall>p\<in>set run. elevation p \<ge> m" "positions = pre @ run @ post"
    by auto
  from assms(3) run(2) obtain p where p: "p \<in> set run" "pt = mk_point p"
    by (auto simp: window_of_def)
  with r have "p \<in> set positions" "elevation p \<ge> m"
    by auto
  moreover have "time pt = strftime (time p)"
    "half_even_rounding (azimuth p) 2 (azimuth pt)"
    "half_even_rounding (elevation p) 2 (elevation pt)"
    "half_even_rounding (range_km p) 2 (range_km pt)"
    "half_even_rounding (rangeRate p) 3 (rangeRate pt)"
    "half_even_rounding (altitude p) 2 (altitude pt)"
    by (simp_all add: p(2) mk_point_def py_round_half_even)
  ultimately show ?thesis
    using p(2) by blast
qed

theorem points_rounded_half_even_witness:
  "find_visibility_windows [tie_sample] [] 10 = Inr [tie_window]
     \<and> tie_window \<in> set [tie_window] \<and> tie_point \<in> set (points tie_window)
     \<and> (\<exists>p\<in>set [tie_sample]. elevation p \<ge> 10 \<and> tie_point = mk_point p
           \<and> half_even_rounding (azimuth p) 2 (azimuth tie_point)
           \<and> half_even_rounding (rangeRate p) 3 (rangeRate tie_point))"
proof -
  have h: "find_visibility_windows [tie_sample] [] 10 = Inr [tie_window]"
    "tie_window \<in> set [tie_window]" "tie_point \<in> set (points tie_window)"
    by (simp_all add: tie_eval tie_window_def)
  from points_rounded_half_even[OF h] h show ?thesis
    by blast
qed

text \<open>
  The claim as stated fails at a tie: an azimuth of 0.125 is emitted as 0.12 and a range
  rate of 0.0625 as 0.062, where rounding half away from zero gives 0.13 and 0.063.
\<close>

theorem points_rounded_counterexample:
  "find_visibility_windows [tie_sample] [] 10 = Inr [tie_window]
     \<and> points tie_window = [tie_point]
     \<and> azimuth tie_point = 0.12 \<and> round_half_away (azimuth tie_sample) 2 = 0.13
     \<and> rangeRate tie_point = 0.062 \<and> round_half_away (rangeRate tie_sample) 3 = 0.063"
  by (simp add: tie_eval) (simp add: tie_window_def tie_point_def tie_sample_def
      round_half_away_def)

text \<open>
  C10.  The windows do not depend on the \<^verbatim>\<open>times\<close> argument of the segmenter: any two
  values of it give the same result, for every list of positions and every threshold.
\<close>

theorem find_visibility_windows_ignores_times:
  "find_visibility_windows positions times1 min_elevation
     = find_visibility_windows positions times2 min_elevation"
  by (simp add: find_visibility_windows_def)

end
